theory Spec2Isabelle
  imports Main
begin

section \<open>Data model of setrefs.c\<close>

text \<open>
  The final pass of the planner (src/backend/optimizer/plan/setrefs.c) as a shallow
  embedding.  Conventions:
  \<^item> \<open>Index\<close> and \<open>Oid\<close> (unsigned int) are \<open>nat\<close>, \<open>AttrNumber\<close> (int16) is \<open>int\<close>; the
    range-table offset is always a list length and is a \<open>nat\<close>.  No plan comes near the
    32-bit limit, so wrap-around is not written out.
  \<^item> A \<open>List *\<close> is a HOL list, \<open>NIL\<close> is \<open>[]\<close>; a \<open>Node *\<close> that may be \<open>NULL\<close> is an option.
  \<^item> \<open>elog(ERROR, ...)\<close> is a value \<open>Inl e\<close>; every function that can raise returns
    \<open>error + result\<close>.  A read through a NULL pointer or past the end of a list (undefined
    in C) is an error value of its own.
  \<^item> \<open>PlannerGlobal\<close> is threaded explicitly: a function takes it and returns the new one.
  \<^item> \<open>Assert\<close> is compiled out of production builds; the model is the production build.
  \<^item> Expression trees are values: a mutator returns the new tree.  The operator handle
    that \<open>set_opfuncid\<close> writes in place is visible on the returned tree.
\<close>

subsection \<open>Expressions\<close>

record var =
  varno :: nat
  varattno :: int
  vartype :: nat
  vartypmod :: int
  varcollid :: nat
  varlevelsup :: nat
  varnoold :: nat
  varoattno :: int

text \<open>
  The expression node kinds that setrefs.c tells apart, and \<open>BoolExpr\<close> for a node with
  children that the pass treats generically.  \<open>List\<close> and \<open>TargetEntry\<close> nodes are the
  HOL list type and the record \<open>tle\<close> below.
\<close>

datatype expr =
    Var var
  | Const (consttype: nat) (constvalue: nat) (constisnull: bool)
  | PlaceHolderVar (phexpr: expr) (phid: nat)
  | Aggref (aggfnoid: nat) "expr list"
  | WindowFunc (winfnoid: nat) "expr list"
  | FuncExpr (funcid: nat) (funcretset: bool) "expr list"
  | OpExpr (opno: nat) (opfuncid: nat) (opretset: bool) "expr list"
  | DistinctExpr nat nat "expr list"
  | NullIfExpr nat nat "expr list"
  | ScalarArrayOpExpr nat nat "expr list"
  | ArrayCoerceExpr expr (elemfuncid: nat)
  | RelabelType expr (resulttype: nat)
  | BoolExpr nat "expr list"
  | Grouping
  | GroupId

record tle =
  expr :: expr
  resno :: int
  resname :: string
  ressortgroupref :: nat
  resorigtbl :: nat
  resorigcol :: int
  resjunk :: bool

subsection \<open>Range table and row marks\<close>

datatype RTEKind = RTE_RELATION | RTE_SUBQUERY | RTE_JOIN | RTE_FUNCTION | RTE_VALUES
  | RTE_CTE | RTE_TABLEFUNCTION | RTE_VOID

record RangeTblEntry =
  rtekind :: RTEKind
  relid :: nat
  rte_funcexpr :: "expr option"
  joinaliasvars :: "expr list"
  rte_values_lists :: "expr list list"
  pseudocols :: "(int \<times> expr option) list"
  eref :: string

record PlanRowMark =
  rti :: nat
  prti :: nat
  rowmarkId :: nat

subsection \<open>Plan nodes\<close>

record Flow =
  flotype :: nat
  hashExpr :: "expr list"

record NestLoopParam =
  paramno :: nat
  paramval :: expr

text \<open>
  A plan node: the fields of \<open>struct Plan\<close> that the pass reads or writes, and the node
  tag with the fields of the node type it stands for.  Node types with the same fields
  share a constructor and keep their tag as its first argument: \<open>Scan\<close> is a node that is
  a bare \<open>struct Scan\<close> (the source relies on that structure equivalence), \<open>BitmapScan\<close>
  a scan with \<open>bitmapqualorig\<close>, \<open>Plain\<close> a node none of whose own fields the pass
  touches, \<open>PlanList\<close> a node with a list of child plans (\<open>appendplans\<close>, \<open>mergeplans\<close>,
  \<open>bitmapplans\<close>).  Of a \<open>ShareInputScan\<close> the pass reads \<open>share_id\<close>.  \<open>OtherNode\<close> is
  any tag the dispatcher has no case for.
\<close>

datatype scan_tag = T_SeqScan | T_AppendOnlyScan | T_AOCSScan | T_ExternalScan
  | T_CteScan | T_WorkTableScan | T_ForeignScan

datatype bitmap_scan_tag = T_BitmapHeapScan | T_BitmapAppendOnlyScan | T_BitmapTableScan

datatype plain_tag = T_Plan | T_Sort | T_Hash | T_Material | T_Unique | T_SetOp
  | T_Agg | T_Repeat | T_RecursiveUnion

datatype plan_list_tag = T_Append | T_MergeAppend | T_BitmapAnd | T_BitmapOr

datatype plan =
  Plan (kind: plan_kind) (targetlist: "tle list") (qual: "expr list")
       (lefttree: "plan option") (righttree: "plan option")
       (initPlan: "nat list") (flow: "Flow option")
and plan_kind =
    Scan scan_tag nat
  | IndexScan nat "expr list" "expr list" "expr list" "expr list"
  | BitmapIndexScan nat "expr list" "expr list"
  | BitmapScan bitmap_scan_tag nat "expr list"
  | TidScan nat "expr list"
  | SubqueryScan nat plan "RangeTblEntry list" "PlanRowMark list"
  | TableFunctionScan nat "RangeTblEntry list"
  | FunctionScan nat "expr option"
  | ValuesScan nat "expr list list"
  | NestLoop "expr list" "NestLoopParam list"
  | MergeJoin "expr list" "expr list"
  | HashJoin "expr list" "expr list" "expr list"
  | Plain plain_tag
  | ShareInputScan (share_id: int)
  | PartitionSelector "expr list" "expr list" "expr option" "expr option" "expr option" "tle list"
  | LockRows "PlanRowMark list"
  | Limit "expr option" "expr option"
  | WindowAgg "expr option" "expr option"
  | Result "expr option"
  | ModifyTable "nat list" "PlanRowMark list" "plan list" nat
  | PlanList plan_list_tag "plan list"
  | Motion "expr list"
  | OtherNode nat

definition set_kind :: "plan \<Rightarrow> plan_kind \<Rightarrow> plan" where
  "set_kind p x = Plan x (targetlist p) (qual p) (lefttree p) (righttree p) (initPlan p) (flow p)"

definition set_targetlist :: "plan \<Rightarrow> tle list \<Rightarrow> plan" where
  "set_targetlist p x = Plan (kind p) x (qual p) (lefttree p) (righttree p) (initPlan p) (flow p)"

definition set_qual :: "plan \<Rightarrow> expr list \<Rightarrow> plan" where
  "set_qual p x = Plan (kind p) (targetlist p) x (lefttree p) (righttree p) (initPlan p) (flow p)"

definition set_lefttree :: "plan \<Rightarrow> plan option \<Rightarrow> plan" where
  "set_lefttree p x = Plan (kind p) (targetlist p) (qual p) x (righttree p) (initPlan p) (flow p)"

definition set_righttree :: "plan \<Rightarrow> plan option \<Rightarrow> plan" where
  "set_righttree p x = Plan (kind p) (targetlist p) (qual p) (lefttree p) x (initPlan p) (flow p)"

definition set_initPlan :: "plan \<Rightarrow> nat list \<Rightarrow> plan" where
  "set_initPlan p x = Plan (kind p) (targetlist p) (qual p) (lefttree p) (righttree p) x (flow p)"

definition set_flow :: "plan \<Rightarrow> Flow option \<Rightarrow> plan" where
  "set_flow p x = Plan (kind p) (targetlist p) (qual p) (lefttree p) (righttree p) (initPlan p) x"

subsection \<open>Planner context\<close>

record PlanInvalItem =
  cacheId :: nat
  tupleId :: "nat \<times> nat"

text \<open>
  \<open>share_producers\<close> is \<open>glob->share.producers\<close>, an array of \<open>producer_count\<close> pointers
  to the nodes that produce a shared input; an entry that is \<open>NULL\<close> is \<open>None\<close>.
\<close>

record PlannerGlobal =
  finalrtable :: "RangeTblEntry list"
  finalrowmarks :: "PlanRowMark list"
  relationOids :: "nat list"
  invalItems :: "PlanInvalItem list"
  resultRelations :: "nat list"
  share_producers :: "plan option list"

subsection \<open>What the pass takes from the rest of the system\<close>

text \<open>
  Constants, macros and helpers that setrefs.c uses and that are declared in headers or
  files outside src/.  They are parameters of the model: every theorem holds for any
  value of them unless it says otherwise.
\<close>

record env =
  INNER :: nat
  OUTER :: nat
  InvalidOid :: nat
  FirstBootstrapObjectId :: nat
  FirstLowInvalidHeapAttributeNumber :: int
  REGCLASSOID :: nat
  OIDOID :: nat
  PROCOID :: nat
  get_opcode :: "nat \<Rightarrow> nat"
  SearchSysCache1_PROCOID :: "nat \<Rightarrow> (nat \<times> nat) option"
  cdb_rte_find_pseudo_column :: "RangeTblEntry \<Rightarrow> int \<Rightarrow> expr option"
  exprType :: "expr \<Rightarrow> nat"
  exprTypmod :: "expr \<Rightarrow> int"
  exprCollation :: "expr \<Rightarrow> nat"
  expression_returns_set :: "tle list \<Rightarrow> bool"
  flatten_tlist :: "tle list \<Rightarrow> tle list"

datatype error =
    VariableNotFoundJoin
  | VariableNotFoundUpper
  | CacheLookupFailed nat
  | UnrecognizedNodeType nat
  | NullDereference
  | RtFetchOutOfRange
  | ProducerOutOfRange
  | BadCast
  | OutOfFuel

section \<open>Generic tree traversal\<close>

text \<open>
  \<open>foreach\<close> over a list with a callback that may raise and that updates the context:
  left to right, stopping at the first error.
\<close>

fun mutate_list :: "('s \<Rightarrow> 'a \<Rightarrow> error + ('b \<times> 's)) \<Rightarrow> 's \<Rightarrow> 'a list \<Rightarrow> error + ('b list \<times> 's)" where
  "mutate_list f s [] = Inr ([], s)"
| "mutate_list f s (x # xs) =
     (case f s x of
        Inl e \<Rightarrow> Inl e
      | Inr (y, s') \<Rightarrow>
          (case mutate_list f s' xs of
             Inl e \<Rightarrow> Inl e
           | Inr (ys, s'') \<Rightarrow> Inr (y # ys, s'')))"

lemma mutate_list_cong [fundef_cong]:
  "xs = ys \<Longrightarrow> s = t \<Longrightarrow> (\<And>x u. x \<in> set ys \<Longrightarrow> f u x = g u x)
   \<Longrightarrow> mutate_list f s xs = mutate_list g t ys"
proof (induction xs arbitrary: ys s t)
  case Nil
  then show ?case by simp
next
  case (Cons a as)
  then obtain bs where ys: "ys = a # bs" "as = bs" by auto
  have hd: "f s a = g s a" using Cons.prems ys by simp
  have rest: "\<And>s'. mutate_list f s' as = mutate_list g s' bs"
    using Cons.IH [OF ys(2) refl] Cons.prems(3) ys by simp
  show ?case using Cons.prems(2) ys hd rest by (simp split: sum.splits)
qed

text \<open>
  Modelled from the spec: \<open>expression_tree_mutator\<close> and \<open>expression_tree_walker\<close>
  (nodeFuncs.c) are not in src/.  They copy a node and hand each child expression to the
  callback; a node without children is copied as it is.
\<close>

fun subexprs :: "expr \<Rightarrow> expr list" where
  "subexprs (Var v) = []"
| "subexprs (Const t v n) = []"
| "subexprs (PlaceHolderVar e i) = [e]"
| "subexprs (Aggref f args) = args"
| "subexprs (WindowFunc f args) = args"
| "subexprs (FuncExpr f r args) = args"
| "subexprs (OpExpr opn f r args) = args"
| "subexprs (DistinctExpr opn f args) = args"
| "subexprs (NullIfExpr opn f args) = args"
| "subexprs (ScalarArrayOpExpr opn f args) = args"
| "subexprs (ArrayCoerceExpr e f) = [e]"
| "subexprs (RelabelType e t) = [e]"
| "subexprs (BoolExpr b args) = args"
| "subexprs Grouping = []"
| "subexprs GroupId = []"

fun with_subexprs :: "expr \<Rightarrow> expr list \<Rightarrow> expr" where
  "with_subexprs (PlaceHolderVar e i) es = PlaceHolderVar (case es of [] \<Rightarrow> e | x # _ \<Rightarrow> x) i"
| "with_subexprs (Aggref f args) es = Aggref f es"
| "with_subexprs (WindowFunc f args) es = WindowFunc f es"
| "with_subexprs (FuncExpr f r args) es = FuncExpr f r es"
| "with_subexprs (OpExpr opn f r args) es = OpExpr opn f r es"
| "with_subexprs (DistinctExpr opn f args) es = DistinctExpr opn f es"
| "with_subexprs (NullIfExpr opn f args) es = NullIfExpr opn f es"
| "with_subexprs (ScalarArrayOpExpr opn f args) es = ScalarArrayOpExpr opn f es"
| "with_subexprs (ArrayCoerceExpr e f) es = ArrayCoerceExpr (case es of [] \<Rightarrow> e | x # _ \<Rightarrow> x) f"
| "with_subexprs (RelabelType e t) es = RelabelType (case es of [] \<Rightarrow> e | x # _ \<Rightarrow> x) t"
| "with_subexprs (BoolExpr b args) es = BoolExpr b es"
| "with_subexprs node es = node"

definition expression_tree_mutator ::
  "expr \<Rightarrow> ('s \<Rightarrow> expr \<Rightarrow> error + (expr \<times> 's)) \<Rightarrow> 's \<Rightarrow> error + (expr \<times> 's)" where
  "expression_tree_mutator node mutator s =
     (case mutate_list mutator s (subexprs node) of
        Inl e \<Rightarrow> Inl e
      | Inr (es, s') \<Rightarrow> Inr (with_subexprs node es, s'))"

lemma expression_tree_mutator_cong [fundef_cong]:
  assumes "node = node'" and "s = t"
    and "\<And>x u. x \<in> set (subexprs node') \<Longrightarrow> f u x = g u x"
  shows "expression_tree_mutator node f s = expression_tree_mutator node' g t"
proof -
  have "mutate_list f t (subexprs node') = mutate_list g t (subexprs node')"
    using assms(3) by (rule mutate_list_cong [OF refl refl])
  then show ?thesis
    unfolding expression_tree_mutator_def assms(1,2) by simp
qed

lemma subexprs_size [termination_simp]: "x \<in> set (subexprs node) \<Longrightarrow> size x < size node"
  by (cases node) (auto simp: less_Suc_eq_le dest: size_list_estimation')


section \<open>Dependencies and operator handles\<close>

definition record_plan_function_dependency :: "env \<Rightarrow> PlannerGlobal \<Rightarrow> nat \<Rightarrow> error + PlannerGlobal" where
  "record_plan_function_dependency env glob fid =
     (if fid \<ge> FirstBootstrapObjectId env then
        (case SearchSysCache1_PROCOID env fid of
           None \<Rightarrow> Inl (CacheLookupFailed fid)
         | Some t_self \<Rightarrow>
             Inr (glob\<lparr>invalItems := invalItems glob @ [\<lparr>cacheId = PROCOID env, tupleId = t_self\<rparr>]\<rparr>))
      else Inr glob)"

text \<open>\<open>set_opfuncid\<close> and \<open>set_sa_opfuncid\<close>: the handle of an operator, from its number.\<close>

definition set_opfuncid :: "env \<Rightarrow> nat \<Rightarrow> nat \<Rightarrow> nat" where
  "set_opfuncid env opn fid = (if fid = InvalidOid env then get_opcode env opn else fid)"

definition ISREGCLASSCONST :: "env \<Rightarrow> nat \<Rightarrow> bool \<Rightarrow> bool" where
  "ISREGCLASSCONST env ctype isnull \<longleftrightarrow> (ctype = REGCLASSOID env \<or> ctype = OIDOID env) \<and> \<not> isnull"

definition with_glob :: "expr \<Rightarrow> error + PlannerGlobal \<Rightarrow> error + (expr \<times> PlannerGlobal)" where
  "with_glob node r = (case r of Inl e \<Rightarrow> Inl e | Inr glob \<Rightarrow> Inr (node, glob))"

fun fix_expr_common :: "env \<Rightarrow> PlannerGlobal \<Rightarrow> expr \<Rightarrow> error + (expr \<times> PlannerGlobal)" where
  "fix_expr_common env glob (Aggref f args) =
     with_glob (Aggref f args) (record_plan_function_dependency env glob f)"
| "fix_expr_common env glob (WindowFunc f args) =
     with_glob (WindowFunc f args) (record_plan_function_dependency env glob f)"
| "fix_expr_common env glob (FuncExpr f r args) =
     with_glob (FuncExpr f r args) (record_plan_function_dependency env glob f)"
| "fix_expr_common env glob (OpExpr opn f r args) =
     (let f' = set_opfuncid env opn f
      in with_glob (OpExpr opn f' r args) (record_plan_function_dependency env glob f'))"
| "fix_expr_common env glob (DistinctExpr opn f args) =
     (let f' = set_opfuncid env opn f
      in with_glob (DistinctExpr opn f' args) (record_plan_function_dependency env glob f'))"
| "fix_expr_common env glob (NullIfExpr opn f args) =
     (let f' = set_opfuncid env opn f
      in with_glob (NullIfExpr opn f' args) (record_plan_function_dependency env glob f'))"
| "fix_expr_common env glob (ScalarArrayOpExpr opn f args) =
     (let f' = set_opfuncid env opn f
      in with_glob (ScalarArrayOpExpr opn f' args) (record_plan_function_dependency env glob f'))"
| "fix_expr_common env glob (ArrayCoerceExpr e f) =
     (if f \<noteq> InvalidOid env
      then with_glob (ArrayCoerceExpr e f) (record_plan_function_dependency env glob f)
      else Inr (ArrayCoerceExpr e f, glob))"
| "fix_expr_common env glob (Const t v isnull) =
     (if ISREGCLASSCONST env t isnull
      then Inr (Const t v isnull, glob\<lparr>relationOids := relationOids glob @ [v]\<rparr>)
      else Inr (Const t v isnull, glob))"
| "fix_expr_common env glob node = Inr (node, glob)"

lemma fix_expr_common_subexprs:
  "fix_expr_common env glob node = Inr (node', glob') \<Longrightarrow> subexprs node' = subexprs node"
  by (cases node) (auto simp: with_glob_def Let_def split: sum.splits if_splits)

lemma fix_expr_common_size:
  "fix_expr_common env glob node = Inr (node', glob') \<Longrightarrow> x \<in> set (subexprs node')
   \<Longrightarrow> size x < size node"
  using fix_expr_common_subexprs [of env glob node node' glob'] subexprs_size [of x node]
  by simp

lemma mutator_decreases:
  "fix_expr_common env glob node = Inr b \<Longrightarrow> (node', glob') = b \<Longrightarrow> x \<in> set (subexprs node')
   \<Longrightarrow> ((env, (k :: 'k), (u :: PlannerGlobal), x), (env, k, glob, node))
       \<in> measure (\<lambda>(env, k, glob, node). size node)"
  using fix_expr_common_size [of env glob node node' glob' x] by simp

section \<open>Scan-level expressions\<close>

text \<open>\<open>rt_fetch\<close>: range-table slots count from 1.\<close>

definition rt_fetch :: "nat \<Rightarrow> 'a list \<Rightarrow> 'a option" where
  "rt_fetch i rtable = (if 1 \<le> i \<and> i \<le> length rtable then Some (rtable ! (i - 1)) else None)"

function fix_scan_expr_walker :: "env \<Rightarrow> PlannerGlobal \<Rightarrow> expr \<Rightarrow> error + (expr \<times> PlannerGlobal)" where
  "fix_scan_expr_walker env glob node =
     (case fix_expr_common env glob node of
        Inl e \<Rightarrow> Inl e
      | Inr (node', glob') \<Rightarrow> expression_tree_mutator node' (fix_scan_expr_walker env) glob')"
  by pat_completeness auto
termination
  by (relation "measure (\<lambda>(env, glob, node). size node)") (auto dest: fix_expr_common_size)

definition copyVar_offset :: "var \<Rightarrow> nat \<Rightarrow> var" where
  "copyVar_offset v rtoffset =
     (let v1 = v\<lparr>varno := varno v + rtoffset\<rparr>
      in if varnoold v1 > 0 then v1\<lparr>varnoold := varnoold v1 + rtoffset\<rparr> else v1)"

function (sequential) fix_scan_expr_mutator :: "env \<Rightarrow> nat \<Rightarrow> PlannerGlobal \<Rightarrow> expr \<Rightarrow> error + (expr \<times> PlannerGlobal)" where
  "fix_scan_expr_mutator env rtoffset glob (Var v) =
     (let var = copyVar_offset v rtoffset
      in if varattno var \<le> FirstLowInvalidHeapAttributeNumber env then
           (case rt_fetch (varno var) (finalrtable glob) of
              None \<Rightarrow> Inl RtFetchOutOfRange
            | Some rte \<Rightarrow>
                (case cdb_rte_find_pseudo_column env rte (varattno var) of
                   None \<Rightarrow> Inl NullDereference
                 | Some defexpr \<Rightarrow> fix_scan_expr_walker env glob defexpr))
         else Inr (Var var, glob))"
| "fix_scan_expr_mutator env rtoffset glob (PlaceHolderVar e i) =
     fix_scan_expr_mutator env rtoffset glob e"
| "fix_scan_expr_mutator env rtoffset glob node =
     (case fix_expr_common env glob node of
        Inl e \<Rightarrow> Inl e
      | Inr (node', glob') \<Rightarrow> expression_tree_mutator node' (fix_scan_expr_mutator env rtoffset) glob')"
  by pat_completeness auto
termination
proof (relation "measure (\<lambda>(env, rtoffset, glob, node). size node)")
  show "wf (measure (\<lambda>(env, rtoffset, glob, node). size (node :: expr)))"
    by simp
qed (simp, (erule (2) mutator_decreases)+)

text \<open>
  \<open>fix_scan_expr\<close> on one expression, on a list of clauses (\<open>fix_scan_list\<close>) and on a
  target list: in C the same mutator walks the \<open>List\<close> and \<open>TargetEntry\<close> nodes, which
  \<open>fix_expr_common\<close> ignores and \<open>expression_tree_mutator\<close> copies.
\<close>

definition fix_scan_expr :: "env \<Rightarrow> PlannerGlobal \<Rightarrow> expr \<Rightarrow> nat \<Rightarrow> error + (expr \<times> PlannerGlobal)" where
  "fix_scan_expr env glob node rtoffset = fix_scan_expr_mutator env rtoffset glob node"

definition fix_scan_expr_opt ::
  "env \<Rightarrow> PlannerGlobal \<Rightarrow> expr option \<Rightarrow> nat \<Rightarrow> error + (expr option \<times> PlannerGlobal)" where
  "fix_scan_expr_opt env glob node rtoffset =
     (case node of
        None \<Rightarrow> Inr (None, glob)
      | Some n \<Rightarrow>
          (case fix_scan_expr env glob n rtoffset of
             Inl e \<Rightarrow> Inl e
           | Inr (n', glob') \<Rightarrow> Inr (Some n', glob')))"

definition fix_scan_list ::
  "env \<Rightarrow> PlannerGlobal \<Rightarrow> expr list \<Rightarrow> nat \<Rightarrow> error + (expr list \<times> PlannerGlobal)" where
  "fix_scan_list env glob lst rtoffset = mutate_list (fix_scan_expr_mutator env rtoffset) glob lst"

definition mutate_tle :: "('s \<Rightarrow> expr \<Rightarrow> error + (expr \<times> 's)) \<Rightarrow> 's \<Rightarrow> tle \<Rightarrow> error + (tle \<times> 's)" where
  "mutate_tle f s t =
     (case f s (expr t) of Inl e \<Rightarrow> Inl e | Inr (x, s') \<Rightarrow> Inr (t\<lparr>expr := x\<rparr>, s'))"

definition fix_scan_tlist ::
  "env \<Rightarrow> PlannerGlobal \<Rightarrow> tle list \<Rightarrow> nat \<Rightarrow> error + (tle list \<times> PlannerGlobal)" where
  "fix_scan_tlist env glob tlst rtoffset =
     mutate_list (mutate_tle (fix_scan_expr_mutator env rtoffset)) glob tlst"

definition fix_scan_lists ::
  "env \<Rightarrow> PlannerGlobal \<Rightarrow> expr list list \<Rightarrow> nat \<Rightarrow> error + (expr list list \<times> PlannerGlobal)" where
  "fix_scan_lists env glob lsts rtoffset =
     mutate_list (\<lambda>g l. fix_scan_list env g l rtoffset) glob lsts"

section \<open>Indexed target lists\<close>

record tlist_vinfo =
  vi_varno :: nat
  vi_varattno :: int
  vi_resno :: int

record indexed_tlist =
  tlist :: "tle list"
  has_ph_vars :: bool
  has_non_vars :: bool
  vars :: "tlist_vinfo list"

text \<open>The \<open>while (IsA(expr, RelabelType))\<close> loop of \<open>build_tlist_index\<close>.\<close>

fun strip_relabel :: "expr \<Rightarrow> expr" where
  "strip_relabel (RelabelType e t) = strip_relabel e"
| "strip_relabel e = e"

fun is_Var :: "expr \<Rightarrow> bool" where
  "is_Var (Var v) = True"
| "is_Var e = False"

fun is_PlaceHolderVar :: "expr \<Rightarrow> bool" where
  "is_PlaceHolderVar (PlaceHolderVar e i) = True"
| "is_PlaceHolderVar e = False"

fun is_RelabelType :: "expr \<Rightarrow> bool" where
  "is_RelabelType (RelabelType e t) = True"
| "is_RelabelType e = False"

fun build_tlist_index_step :: "indexed_tlist \<Rightarrow> tle \<Rightarrow> indexed_tlist" where
  "build_tlist_index_step itlist t =
     (let itlist1 = (if is_RelabelType (expr t) then itlist\<lparr>has_non_vars := True\<rparr> else itlist)
      in case strip_relabel (expr t) of
           Var v \<Rightarrow>
             itlist1\<lparr>vars := vars itlist1 @
               [\<lparr>vi_varno = varno v, vi_varattno = varattno v, vi_resno = resno t\<rparr>]\<rparr>
         | _ \<Rightarrow>
             if is_PlaceHolderVar (expr t) then itlist1\<lparr>has_ph_vars := True\<rparr>
             else itlist1\<lparr>has_non_vars := True\<rparr>)"

definition build_tlist_index :: "tle list \<Rightarrow> indexed_tlist" where
  "build_tlist_index tlst =
     foldl build_tlist_index_step
       \<lparr>tlist = tlst, has_ph_vars = False, has_non_vars = False, vars = []\<rparr> tlst"

fun build_tlist_index_other_vars_step :: "nat \<Rightarrow> indexed_tlist \<Rightarrow> tle \<Rightarrow> indexed_tlist" where
  "build_tlist_index_other_vars_step ignore_rel itlist t =
     (case expr t of
        Var v \<Rightarrow>
          if varno v \<noteq> ignore_rel
          then itlist\<lparr>vars := vars itlist @
                 [\<lparr>vi_varno = varno v, vi_varattno = varattno v, vi_resno = resno t\<rparr>]\<rparr>
          else itlist
      | PlaceHolderVar e i \<Rightarrow> itlist\<lparr>has_ph_vars := True\<rparr>
      | _ \<Rightarrow> itlist)"

definition build_tlist_index_other_vars :: "tle list \<Rightarrow> nat \<Rightarrow> indexed_tlist" where
  "build_tlist_index_other_vars tlst ignore_rel =
     foldl (build_tlist_index_other_vars_step ignore_rel)
       \<lparr>tlist = tlst, has_ph_vars = False, has_non_vars = False, vars = []\<rparr> tlst"

definition search_indexed_tlist_for_var :: "var \<Rightarrow> indexed_tlist \<Rightarrow> nat \<Rightarrow> nat \<Rightarrow> var option" where
  "search_indexed_tlist_for_var v itlist newvarno rtoffset =
     (case find (\<lambda>vinfo. vi_varno vinfo = varno v \<and> vi_varattno vinfo = varattno v) (vars itlist) of
        None \<Rightarrow> None
      | Some vinfo \<Rightarrow>
          (let newvar = v\<lparr>varno := newvarno, varattno := vi_resno vinfo\<rparr>
           in Some (if varnoold newvar > 0
                    then newvar\<lparr>varnoold := varnoold newvar + rtoffset\<rparr> else newvar)))"

text \<open>
  Modelled from the spec: \<open>makeVar\<close>, \<open>makeVarFromTargetEntry\<close> (makefuncs.c) and
  \<open>tlist_member\<close> (tlist.c) are not in src/.  \<open>makeVar\<close> builds a variable whose original
  slot and position are its slot and position; \<open>tlist_member\<close> is the first entry whose
  expression is structurally equal to the node (the spec's "deep structural equality over
  the raw list").
\<close>

definition makeVar :: "nat \<Rightarrow> int \<Rightarrow> nat \<Rightarrow> int \<Rightarrow> nat \<Rightarrow> nat \<Rightarrow> var" where
  "makeVar vno attno vtype vtypmod vcollid levelsup =
     \<lparr>varno = vno, varattno = attno, vartype = vtype, vartypmod = vtypmod, varcollid = vcollid,
      varlevelsup = levelsup, varnoold = vno, varoattno = attno\<rparr>"

definition makeVarFromTargetEntry :: "env \<Rightarrow> nat \<Rightarrow> tle \<Rightarrow> var" where
  "makeVarFromTargetEntry env vno t =
     makeVar vno (resno t) (exprType env (expr t)) (exprTypmod env (expr t))
       (exprCollation env (expr t)) 0"

definition tlist_member :: "expr \<Rightarrow> tle list \<Rightarrow> tle option" where
  "tlist_member node tlst = find (\<lambda>t. expr t = node) tlst"

definition search_indexed_tlist_for_non_var :: "env \<Rightarrow> expr \<Rightarrow> indexed_tlist \<Rightarrow> nat \<Rightarrow> var option" where
  "search_indexed_tlist_for_non_var env node itlist newvarno =
     (case tlist_member node (tlist itlist) of
        None \<Rightarrow> None
      | Some t \<Rightarrow> Some ((makeVarFromTargetEntry env newvarno t)\<lparr>varnoold := 0, varoattno := 0\<rparr>))"

definition search_indexed_tlist_for_sortgroupref ::
  "env \<Rightarrow> expr \<Rightarrow> nat \<Rightarrow> indexed_tlist \<Rightarrow> nat \<Rightarrow> var option" where
  "search_indexed_tlist_for_sortgroupref env node sortgroupref itlist newvarno =
     (case find (\<lambda>t. ressortgroupref t = sortgroupref \<and> node = expr t) (tlist itlist) of
        None \<Rightarrow> None
      | Some t \<Rightarrow> Some ((makeVarFromTargetEntry env newvarno t)\<lparr>varnoold := 0, varoattno := 0\<rparr>))"

section \<open>Join-level expressions\<close>

record fix_join_expr_context =
  outer_itlist :: indexed_tlist
  inner_itlist :: "indexed_tlist option"
  acceptable_rel :: nat
  rtoffset :: nat
  use_outer_tlist_for_matching_nonvars :: bool
  use_inner_tlist_for_matching_nonvars :: bool

text \<open>The first part of the mutator's \<open>Var\<close> branch: the outer list, then the inner one.\<close>

definition search_join_var :: "env \<Rightarrow> fix_join_expr_context \<Rightarrow> var \<Rightarrow> var option" where
  "search_join_var env ctx v =
     (case search_indexed_tlist_for_var v (outer_itlist ctx) (OUTER env) (rtoffset ctx) of
        Some newvar \<Rightarrow> Some newvar
      | None \<Rightarrow>
          (case inner_itlist ctx of
             None \<Rightarrow> None
           | Some inner \<Rightarrow> search_indexed_tlist_for_var v inner (INNER env) (rtoffset ctx)))"

text \<open>The placeholder branch before it falls through to the contained expression.\<close>

definition search_join_phv :: "env \<Rightarrow> fix_join_expr_context \<Rightarrow> expr \<Rightarrow> var option" where
  "search_join_phv env ctx phv =
     (case (if has_ph_vars (outer_itlist ctx)
            then search_indexed_tlist_for_non_var env phv (outer_itlist ctx) (OUTER env)
            else None) of
        Some newvar \<Rightarrow> Some newvar
      | None \<Rightarrow>
          (case inner_itlist ctx of
             None \<Rightarrow> None
           | Some inner \<Rightarrow>
               if has_ph_vars inner
               then search_indexed_tlist_for_non_var env phv inner (INNER env)
               else None))"

text \<open>
  "Try matching more complex expressions too": the outer list under its flag, then the
  inner list under the two nested conditions of the source.
\<close>

definition search_join_non_var :: "env \<Rightarrow> fix_join_expr_context \<Rightarrow> expr \<Rightarrow> var option" where
  "search_join_non_var env ctx node =
     (case (if has_non_vars (outer_itlist ctx) \<and> use_outer_tlist_for_matching_nonvars ctx
            then search_indexed_tlist_for_non_var env node (outer_itlist ctx) (OUTER env)
            else None) of
        Some newvar \<Rightarrow> Some newvar
      | None \<Rightarrow>
          (case inner_itlist ctx of
             None \<Rightarrow> None
           | Some inner \<Rightarrow>
               if has_non_vars inner \<and> use_inner_tlist_for_matching_nonvars ctx
               then (if has_non_vars inner
                     then search_indexed_tlist_for_non_var env node inner (INNER env)
                     else None)
               else None))"

function (sequential) fix_join_expr_mutator ::
  "env \<Rightarrow> fix_join_expr_context \<Rightarrow> PlannerGlobal \<Rightarrow> expr \<Rightarrow> error + (expr \<times> PlannerGlobal)" where
  "fix_join_expr_mutator env ctx glob (Var v) =
     (case search_join_var env ctx v of
        Some newvar \<Rightarrow> Inr (Var newvar, glob)
      | None \<Rightarrow>
          if varno v = acceptable_rel ctx
          then Inr (Var (if varnoold v > 0 then v\<lparr>varnoold := varnoold v + rtoffset ctx\<rparr> else v), glob)
          else Inl VariableNotFoundJoin)"
| "fix_join_expr_mutator env ctx glob (PlaceHolderVar e i) =
     (case search_join_phv env ctx (PlaceHolderVar e i) of
        Some newvar \<Rightarrow> Inr (Var newvar, glob)
      | None \<Rightarrow> fix_join_expr_mutator env ctx glob e)"
| "fix_join_expr_mutator env ctx glob node =
     (case search_join_non_var env ctx node of
        Some newvar \<Rightarrow> Inr (Var newvar, glob)
      | None \<Rightarrow>
          (case fix_expr_common env glob node of
             Inl e \<Rightarrow> Inl e
           | Inr (node', glob') \<Rightarrow> expression_tree_mutator node' (fix_join_expr_mutator env ctx) glob'))"
  by pat_completeness auto
termination
proof (relation "measure (\<lambda>(env, ctx, glob, node). size node)")
  show "wf (measure (\<lambda>(env, ctx, glob, node). size (node :: expr)))"
    by simp
qed (simp, (erule (2) mutator_decreases)+)

definition fix_join_expr ::
  "env \<Rightarrow> PlannerGlobal \<Rightarrow> expr list \<Rightarrow> indexed_tlist \<Rightarrow> indexed_tlist option \<Rightarrow> nat \<Rightarrow> nat
   \<Rightarrow> error + (expr list \<times> PlannerGlobal)" where
  "fix_join_expr env glob clauses outer inner acceptable offs =
     mutate_list
       (fix_join_expr_mutator env
          \<lparr>outer_itlist = outer, inner_itlist = inner, acceptable_rel = acceptable,
           rtoffset = offs, use_outer_tlist_for_matching_nonvars = True,
           use_inner_tlist_for_matching_nonvars = True\<rparr>)
       glob clauses"

text \<open>\<open>fix_join_expr\<close> applied to a target list.\<close>

definition fix_join_tlist ::
  "env \<Rightarrow> PlannerGlobal \<Rightarrow> tle list \<Rightarrow> indexed_tlist \<Rightarrow> indexed_tlist option \<Rightarrow> nat \<Rightarrow> nat
   \<Rightarrow> error + (tle list \<times> PlannerGlobal)" where
  "fix_join_tlist env glob tlst outer inner acceptable offs =
     mutate_list
       (mutate_tle
          (fix_join_expr_mutator env
             \<lparr>outer_itlist = outer, inner_itlist = inner, acceptable_rel = acceptable,
              rtoffset = offs, use_outer_tlist_for_matching_nonvars = True,
              use_inner_tlist_for_matching_nonvars = True\<rparr>))
       glob tlst"

text \<open>
  \<open>fix_child_hashclauses\<close> on one argument of a hash clause; \<open>child\<close> is the side the
  argument feeds.
\<close>

definition fix_child_hashclauses ::
  "env \<Rightarrow> PlannerGlobal \<Rightarrow> expr \<Rightarrow> indexed_tlist \<Rightarrow> indexed_tlist option \<Rightarrow> nat \<Rightarrow> nat \<Rightarrow> nat
   \<Rightarrow> error + (expr \<times> PlannerGlobal)" where
  "fix_child_hashclauses env glob clause outer inner acceptable offs child =
     fix_join_expr_mutator env
       (if INNER env = child
        then \<lparr>outer_itlist = outer, inner_itlist = inner, acceptable_rel = acceptable,
              rtoffset = offs, use_outer_tlist_for_matching_nonvars = False,
              use_inner_tlist_for_matching_nonvars = True\<rparr>
        else \<lparr>outer_itlist = outer, inner_itlist = inner, acceptable_rel = acceptable,
              rtoffset = offs, use_outer_tlist_for_matching_nonvars = True,
              use_inner_tlist_for_matching_nonvars = False\<rparr>)
       glob clause"

text \<open>
  One clause of \<open>fix_hashclauses\<close>.  The source casts the clause to \<open>OpExpr\<close> and takes
  its first two arguments; on anything else that is undefined.
\<close>

fun fix_hashclause ::
  "env \<Rightarrow> indexed_tlist \<Rightarrow> indexed_tlist option \<Rightarrow> nat \<Rightarrow> PlannerGlobal \<Rightarrow> expr
   \<Rightarrow> error + (expr \<times> PlannerGlobal)" where
  "fix_hashclause env outer inner offs glob (OpExpr opn f r (outer_arg # inner_arg # rest)) =
     (case fix_child_hashclauses env glob outer_arg outer inner 0 offs (OUTER env) of
        Inl e \<Rightarrow> Inl e
      | Inr (new_outer_arg, glob1) \<Rightarrow>
          (case fix_child_hashclauses env glob1 inner_arg outer inner 0 offs (INNER env) of
             Inl e \<Rightarrow> Inl e
           | Inr (new_inner_arg, glob2) \<Rightarrow>
               fix_expr_common env glob2 (OpExpr opn f r [new_outer_arg, new_inner_arg])))"
| "fix_hashclause env outer inner offs glob node = Inl BadCast"

definition fix_hashclauses ::
  "env \<Rightarrow> PlannerGlobal \<Rightarrow> expr list \<Rightarrow> indexed_tlist \<Rightarrow> indexed_tlist option \<Rightarrow> nat \<Rightarrow> nat
   \<Rightarrow> error + (expr list \<times> PlannerGlobal)" where
  "fix_hashclauses env glob clauses outer inner acceptable offs =
     mutate_list (fix_hashclause env outer inner offs) glob clauses"

section \<open>Upper-level expressions\<close>

fun is_GroupId :: "expr \<Rightarrow> bool" where
  "is_GroupId GroupId = True"
| "is_GroupId e = False"

fun is_Grouping :: "expr \<Rightarrow> bool" where
  "is_Grouping Grouping = True"
| "is_Grouping e = False"

function (sequential) fix_upper_expr_mutator ::
  "env \<Rightarrow> indexed_tlist \<times> nat \<Rightarrow> PlannerGlobal \<Rightarrow> expr \<Rightarrow> error + (expr \<times> PlannerGlobal)" where
  "fix_upper_expr_mutator env (subplan_itlist, offs) glob (Var v) =
     (case search_indexed_tlist_for_var v subplan_itlist (OUTER env) offs of
        None \<Rightarrow> Inl VariableNotFoundUpper
      | Some newvar \<Rightarrow> Inr (Var newvar, glob))"
| "fix_upper_expr_mutator env (subplan_itlist, offs) glob (PlaceHolderVar e i) =
     (case (if has_ph_vars subplan_itlist
            then search_indexed_tlist_for_non_var env (PlaceHolderVar e i) subplan_itlist (OUTER env)
            else None) of
        Some newvar \<Rightarrow> Inr (Var newvar, glob)
      | None \<Rightarrow> fix_upper_expr_mutator env (subplan_itlist, offs) glob e)"
| "fix_upper_expr_mutator env (subplan_itlist, offs) glob node =
     (case (if has_non_vars subplan_itlist \<and> \<not> is_GroupId node
            then search_indexed_tlist_for_non_var env node subplan_itlist (OUTER env)
            else None) of
        Some newvar \<Rightarrow> Inr (Var newvar, glob)
      | None \<Rightarrow>
          (case fix_expr_common env glob node of
             Inl e \<Rightarrow> Inl e
           | Inr (node', glob') \<Rightarrow>
               expression_tree_mutator node' (fix_upper_expr_mutator env (subplan_itlist, offs)) glob'))"
  by pat_completeness auto
termination
proof (relation "measure (\<lambda>(env, ctx, glob, node). size node)")
  show "wf (measure (\<lambda>(env, ctx, glob, node). size (node :: expr)))"
    by simp
qed (simp, (erule (2) mutator_decreases)+)

definition fix_upper_expr ::
  "env \<Rightarrow> PlannerGlobal \<Rightarrow> expr \<Rightarrow> indexed_tlist \<Rightarrow> nat \<Rightarrow> error + (expr \<times> PlannerGlobal)" where
  "fix_upper_expr env glob node subplan_itlist offs =
     fix_upper_expr_mutator env (subplan_itlist, offs) glob node"

definition fix_upper_expr_opt ::
  "env \<Rightarrow> PlannerGlobal \<Rightarrow> expr option \<Rightarrow> indexed_tlist \<Rightarrow> nat
   \<Rightarrow> error + (expr option \<times> PlannerGlobal)" where
  "fix_upper_expr_opt env glob node subplan_itlist offs =
     (case node of
        None \<Rightarrow> Inr (None, glob)
      | Some n \<Rightarrow>
          (case fix_upper_expr env glob n subplan_itlist offs of
             Inl e \<Rightarrow> Inl e
           | Inr (n', glob') \<Rightarrow> Inr (Some n', glob')))"

definition fix_upper_list ::
  "env \<Rightarrow> PlannerGlobal \<Rightarrow> expr list \<Rightarrow> indexed_tlist \<Rightarrow> nat \<Rightarrow> error + (expr list \<times> PlannerGlobal)" where
  "fix_upper_list env glob lst subplan_itlist offs =
     mutate_list (fix_upper_expr_mutator env (subplan_itlist, offs)) glob lst"

definition fix_upper_tlist ::
  "env \<Rightarrow> PlannerGlobal \<Rightarrow> tle list \<Rightarrow> indexed_tlist \<Rightarrow> nat \<Rightarrow> error + (tle list \<times> PlannerGlobal)" where
  "fix_upper_tlist env glob tlst subplan_itlist offs =
     mutate_list (mutate_tle (fix_upper_expr_mutator env (subplan_itlist, offs))) glob tlst"

section \<open>Steps that may raise\<close>

text \<open>Sequencing of steps that may raise.\<close>

definition sbind :: "error + 'a \<Rightarrow> ('a \<Rightarrow> error + 'b) \<Rightarrow> error + 'b" where
  "sbind m f = (case m of Inl e \<Rightarrow> Inl e | Inr x \<Rightarrow> f x)"

lemma sbind_Inl [simp]: "sbind (Inl e) f = Inl e"
  by (simp add: sbind_def)

lemma sbind_Inr [simp]: "sbind (Inr x) f = f x"
  by (simp add: sbind_def)

lemma sbind_cong [fundef_cong]:
  "m = m' \<Longrightarrow> (\<And>x. m' = Inr x \<Longrightarrow> f x = g x) \<Longrightarrow> sbind m f = sbind m' g"
  by (cases m') (simp_all add: sbind_def)

lemma sbind_eq_Inr: "sbind m f = Inr y \<longleftrightarrow> (\<exists>x. m = Inr x \<and> f x = Inr y)"
  by (cases m) simp_all

lemma sbind_eq_Inl: "sbind m f = Inl e \<longleftrightarrow> m = Inl e \<or> (\<exists>x. m = Inr x \<and> f x = Inl e)"
  by (cases m) simp_all

section \<open>Fixing one node\<close>

definition set_returning_clause_references ::
  "env \<Rightarrow> PlannerGlobal \<Rightarrow> tle list \<Rightarrow> plan \<Rightarrow> nat \<Rightarrow> error + (tle list \<times> PlannerGlobal)" where
  "set_returning_clause_references env glob rlist topplan resultRelation =
     fix_join_tlist env glob rlist
       (build_tlist_index_other_vars (targetlist topplan) resultRelation) None resultRelation 0"

definition dummy_tle :: "env \<Rightarrow> nat \<Rightarrow> tle \<Rightarrow> tle" where
  "dummy_tle env offs t =
     (let oldvar = expr t;
          newvar = makeVar (OUTER env) (resno t) (exprType env oldvar) (exprTypmod env oldvar)
                     (exprCollation env oldvar) 0
      in t\<lparr>expr := Var (case oldvar of
                         Var ov \<Rightarrow> newvar\<lparr>varnoold := varno ov + offs, varoattno := varattno ov\<rparr>
                       | _ \<Rightarrow> newvar\<lparr>varnoold := 0, varoattno := 0\<rparr>)\<rparr>)"

definition set_dummy_tlist_references :: "env \<Rightarrow> plan \<Rightarrow> nat \<Rightarrow> plan" where
  "set_dummy_tlist_references env p offs = set_targetlist p (map (dummy_tle env offs) (targetlist p))"

text \<open>One entry of the output list in \<open>set_upper_references\<close>.\<close>

definition upper_tle ::
  "env \<Rightarrow> indexed_tlist \<Rightarrow> nat \<Rightarrow> PlannerGlobal \<Rightarrow> tle \<Rightarrow> error + (tle \<times> PlannerGlobal)" where
  "upper_tle env subplan_itlist offs glob t =
     (if is_Grouping (expr t) \<or> is_GroupId (expr t) then Inr (t, glob)
      else if ressortgroupref t \<noteq> 0 \<and> \<not> is_Var (expr t) then
        (case search_indexed_tlist_for_sortgroupref env (expr t) (ressortgroupref t)
                subplan_itlist (OUTER env) of
           Some newvar \<Rightarrow> Inr (t\<lparr>expr := Var newvar\<rparr>, glob)
         | None \<Rightarrow> mutate_tle (\<lambda>g e. fix_upper_expr env g e subplan_itlist offs) glob t)
      else mutate_tle (\<lambda>g e. fix_upper_expr env g e subplan_itlist offs) glob t)"

definition set_upper_references :: "env \<Rightarrow> PlannerGlobal \<Rightarrow> plan \<Rightarrow> nat \<Rightarrow> error + (plan \<times> PlannerGlobal)" where
  "set_upper_references env glob p offs =
     (case lefttree p of
        None \<Rightarrow> Inl NullDereference
      | Some subplan \<Rightarrow>
          (let subplan_itlist = build_tlist_index (targetlist subplan)
           in sbind (mutate_list (upper_tle env subplan_itlist offs) glob (targetlist p))
                (\<lambda>(output_targetlist, glob1).
                   sbind (fix_upper_list env glob1 (qual p) subplan_itlist offs)
                     (\<lambda>(q, glob2). Inr (set_qual (set_targetlist p output_targetlist) q, glob2)))))"

definition fix_nestParam ::
  "env \<Rightarrow> indexed_tlist \<Rightarrow> nat \<Rightarrow> PlannerGlobal \<Rightarrow> NestLoopParam
   \<Rightarrow> error + (NestLoopParam \<times> PlannerGlobal)" where
  "fix_nestParam env outer offs glob nlp =
     sbind (fix_upper_expr env glob (paramval nlp) outer offs)
       (\<lambda>(v, glob'). Inr (nlp\<lparr>paramval := v\<rparr>, glob'))"

text \<open>The join-type-specific part of \<open>set_join_references\<close>.\<close>

fun set_join_references_kind ::
  "env \<Rightarrow> PlannerGlobal \<Rightarrow> plan_kind \<Rightarrow> expr list \<Rightarrow> indexed_tlist \<Rightarrow> indexed_tlist \<Rightarrow> nat
   \<Rightarrow> error + (plan_kind \<times> PlannerGlobal)" where
  "set_join_references_kind env glob (NestLoop jq nestParams) joinqual' outer inner offs =
     sbind (mutate_list (fix_nestParam env outer offs) glob nestParams)
       (\<lambda>(nps, glob1). Inr (NestLoop joinqual' nps, glob1))"
| "set_join_references_kind env glob (MergeJoin jq mergeclauses) joinqual' outer inner offs =
     sbind (fix_join_expr env glob mergeclauses outer (Some inner) 0 offs)
       (\<lambda>(mc, glob1). Inr (MergeJoin joinqual' mc, glob1))"
| "set_join_references_kind env glob (HashJoin jq hashclauses hashqualclauses) joinqual' outer inner offs =
     sbind (fix_hashclauses env glob hashclauses outer (Some inner) 0 offs)
       (\<lambda>(hc, glob1).
          sbind (fix_join_expr env glob1 hashqualclauses outer (Some inner) 0 offs)
            (\<lambda>(hqc, glob2). Inr (HashJoin joinqual' hc hqc, glob2)))"
| "set_join_references_kind env glob k joinqual' outer inner offs = Inr (k, glob)"

fun joinqual :: "plan_kind \<Rightarrow> expr list" where
  "joinqual (NestLoop jq nps) = jq"
| "joinqual (MergeJoin jq mc) = jq"
| "joinqual (HashJoin jq hc hqc) = jq"
| "joinqual k = []"

definition set_join_references :: "env \<Rightarrow> PlannerGlobal \<Rightarrow> plan \<Rightarrow> nat \<Rightarrow> error + (plan \<times> PlannerGlobal)" where
  "set_join_references env glob join offs =
     (case (lefttree join, righttree join) of
        (Some outer_plan, Some inner_plan) \<Rightarrow>
          (let outer = build_tlist_index (targetlist outer_plan);
               inner = build_tlist_index (targetlist inner_plan)
           in sbind (fix_join_tlist env glob (targetlist join) outer (Some inner) 0 offs)
                (\<lambda>(tlst, glob1).
                   sbind (fix_join_expr env glob1 (qual join) outer (Some inner) 0 offs)
                     (\<lambda>(q, glob2).
                        sbind (fix_join_expr env glob2 (joinqual (kind join)) outer (Some inner) 0 offs)
                          (\<lambda>(jq, glob3).
                             sbind (set_join_references_kind env glob3 (kind join) jq outer inner offs)
                               (\<lambda>(k, glob4).
                                  Inr (set_kind (set_qual (set_targetlist join tlst) q) k, glob4))))))
      | _ \<Rightarrow> Inl NullDereference)"

text \<open>The two assignments that every scan case makes to the target list and the filter.\<close>

definition fix_scan_tlist_qual :: "env \<Rightarrow> PlannerGlobal \<Rightarrow> plan \<Rightarrow> nat \<Rightarrow> error + (plan \<times> PlannerGlobal)" where
  "fix_scan_tlist_qual env glob p offs =
     sbind (fix_scan_tlist env glob (targetlist p) offs)
       (\<lambda>(tlst, glob1).
          sbind (fix_scan_list env glob1 (qual p) offs)
            (\<lambda>(q, glob2). Inr (set_qual (set_targetlist p tlst) q, glob2)))"

definition adjust_rowmark :: "nat \<Rightarrow> PlanRowMark \<Rightarrow> PlanRowMark" where
  "adjust_rowmark offs rc = rc\<lparr>rti := rti rc + offs, prti := prti rc + offs\<rparr>"

text \<open>
  The cases of the switch in \<open>set_plan_refs\<close> that fix the node itself and leave the
  switch with \<open>break\<close>.  The cases that return or that walk a list of child plans are in
  \<open>set_plan_refs\<close> below.
\<close>

fun plan_type_specific_fixes ::
  "env \<Rightarrow> PlannerGlobal \<Rightarrow> plan \<Rightarrow> nat \<Rightarrow> plan_kind \<Rightarrow> error + (plan \<times> PlannerGlobal)" where
  "plan_type_specific_fixes env glob p offs (Scan tag scanrelid) =
     fix_scan_tlist_qual env glob (set_kind p (Scan tag (scanrelid + offs))) offs"
| "plan_type_specific_fixes env glob p offs
       (IndexScan scanrelid indexqual indexqualorig indexorderby indexorderbyorig) =
     sbind (fix_scan_tlist_qual env glob p offs)
       (\<lambda>(p1, glob1).
          sbind (fix_scan_list env glob1 indexqual offs)
            (\<lambda>(iq, glob2).
               sbind (fix_scan_list env glob2 indexqualorig offs)
                 (\<lambda>(iqo, glob3).
                    sbind (fix_scan_list env glob3 indexorderby offs)
                      (\<lambda>(iob, glob4).
                         sbind (fix_scan_list env glob4 indexorderbyorig offs)
                           (\<lambda>(iobo, glob5).
                              Inr (set_kind p1 (IndexScan (scanrelid + offs) iq iqo iob iobo), glob5))))))"
| "plan_type_specific_fixes env glob p offs (BitmapIndexScan scanrelid indexqual indexqualorig) =
     sbind (fix_scan_list env glob indexqual offs)
       (\<lambda>(iq, glob1).
          sbind (fix_scan_list env glob1 indexqualorig offs)
            (\<lambda>(iqo, glob2). Inr (set_kind p (BitmapIndexScan (scanrelid + offs) iq iqo), glob2)))"
| "plan_type_specific_fixes env glob p offs (BitmapScan tag scanrelid bitmapqualorig) =
     sbind (fix_scan_tlist_qual env glob p offs)
       (\<lambda>(p1, glob1).
          sbind (fix_scan_list env glob1 bitmapqualorig offs)
            (\<lambda>(bqo, glob2). Inr (set_kind p1 (BitmapScan tag (scanrelid + offs) bqo), glob2)))"
| "plan_type_specific_fixes env glob p offs (TidScan scanrelid tidquals) =
     sbind (fix_scan_tlist_qual env glob p offs)
       (\<lambda>(p1, glob1).
          sbind (fix_scan_list env glob1 tidquals offs)
            (\<lambda>(tq, glob2). Inr (set_kind p1 (TidScan (scanrelid + offs) tq), glob2)))"
| "plan_type_specific_fixes env glob p offs (FunctionScan scanrelid funcexpr) =
     sbind (fix_scan_tlist_qual env glob p offs)
       (\<lambda>(p1, glob1).
          sbind (fix_scan_expr_opt env glob1 funcexpr offs)
            (\<lambda>(fe, glob2). Inr (set_kind p1 (FunctionScan (scanrelid + offs) fe), glob2)))"
| "plan_type_specific_fixes env glob p offs (ValuesScan scanrelid values_lists) =
     sbind (fix_scan_tlist_qual env glob p offs)
       (\<lambda>(p1, glob1).
          sbind (fix_scan_lists env glob1 values_lists offs)
            (\<lambda>(vl, glob2). Inr (set_kind p1 (ValuesScan (scanrelid + offs) vl), glob2)))"
| "plan_type_specific_fixes env glob p offs (NestLoop jq nps) = set_join_references env glob p offs"
| "plan_type_specific_fixes env glob p offs (MergeJoin jq mc) = set_join_references env glob p offs"
| "plan_type_specific_fixes env glob p offs (HashJoin jq hc hqc) = set_join_references env glob p offs"
| "plan_type_specific_fixes env glob p offs (Plain tag) =
     (if tag = T_Plan then Inr (p, glob)
      else if tag = T_Agg \<or> tag = T_Repeat then set_upper_references env glob p offs
      else Inr (set_dummy_tlist_references env p offs, glob))"
| "plan_type_specific_fixes env glob p offs
       (PartitionSelector levelEqExpressions levelExpressions residualPredicate
          propagationExpression printablePredicate partTabTargetlist) =
     (case lefttree p of
        None \<Rightarrow> Inl NullDereference
      | Some child \<Rightarrow>
          (let childplan_itlist = build_tlist_index (targetlist child)
           in sbind (set_upper_references env glob p offs)
                (\<lambda>(p1, glob1).
                   sbind (fix_upper_list env glob1 levelEqExpressions childplan_itlist offs)
                     (\<lambda>(lee, glob2).
                        sbind (fix_upper_list env glob2 levelExpressions childplan_itlist offs)
                          (\<lambda>(le, glob3).
                             sbind (fix_upper_expr_opt env glob3 residualPredicate childplan_itlist offs)
                               (\<lambda>(rp, glob4).
                                  sbind (fix_upper_expr_opt env glob4 propagationExpression childplan_itlist offs)
                                    (\<lambda>(pe, glob5).
                                       sbind (fix_upper_expr_opt env glob5 printablePredicate childplan_itlist offs)
                                         (\<lambda>(pp, glob6).
                                            sbind (fix_upper_tlist env glob6 partTabTargetlist childplan_itlist offs)
                                              (\<lambda>(ptt, glob7).
                                                 Inr (set_kind p1 (PartitionSelector lee le rp pe pp ptt),
                                                      glob7))))))))))"
| "plan_type_specific_fixes env glob p offs (LockRows rowMarks) =
     Inr (set_kind (set_dummy_tlist_references env p offs)
            (LockRows (map (adjust_rowmark offs) rowMarks)), glob)"
| "plan_type_specific_fixes env glob p offs (Limit limitOffset limitCount) =
     sbind (fix_scan_expr_opt env glob limitOffset offs)
       (\<lambda>(lo, glob1).
          sbind (fix_scan_expr_opt env glob1 limitCount offs)
            (\<lambda>(lc, glob2).
               Inr (set_kind (set_dummy_tlist_references env p offs) (Limit lo lc), glob2)))"
| "plan_type_specific_fixes env glob p offs (WindowAgg startOffset endOffset) =
     sbind (set_upper_references env glob p offs)
       (\<lambda>(p1, glob1).
          (let p2 = (if targetlist p1 = [] then set_dummy_tlist_references env p1 offs else p1)
           in if startOffset \<noteq> None \<or> endOffset \<noteq> None then
                (case lefttree p2 of
                   None \<Rightarrow> Inl NullDereference
                 | Some child \<Rightarrow>
                     (let subplan_itlist = build_tlist_index (targetlist child)
                      in sbind (fix_upper_expr_opt env glob1 startOffset subplan_itlist offs)
                           (\<lambda>(so, glob2).
                              sbind (fix_upper_expr_opt env glob2 endOffset subplan_itlist offs)
                                (\<lambda>(eo, glob3). Inr (set_kind p2 (WindowAgg so eo), glob3)))))
              else Inr (p2, glob1)))"
| "plan_type_specific_fixes env glob p offs (Result resconstantqual) =
     sbind (if lefttree p \<noteq> None then set_upper_references env glob p offs else Inr (p, glob))
       (\<lambda>(p1, glob1).
          sbind (fix_scan_tlist_qual env glob1 p1 offs)
            (\<lambda>(p2, glob2).
               sbind (fix_scan_expr_opt env glob2 resconstantqual offs)
                 (\<lambda>(rcq, glob3). Inr (set_kind p2 (Result rcq), glob3))))"
| "plan_type_specific_fixes env glob p offs (Motion mhashExpr) =
     (case lefttree p of
        None \<Rightarrow> Inl NullDereference
      | Some child \<Rightarrow>
          sbind (fix_upper_list env glob mhashExpr (build_tlist_index (targetlist child)) offs)
            (\<lambda>(he, glob1).
               Inr (set_kind (set_dummy_tlist_references env p offs) (Motion he), glob1)))"
| "plan_type_specific_fixes env glob p offs (ShareInputScan sid) =
     (case lefttree p of
        Some childPlan \<Rightarrow> Inr (set_dummy_tlist_references env p offs, glob)
      | None \<Rightarrow>
          (if sid < 0 \<or> int (length (share_producers glob)) \<le> sid then Inl ProducerOutOfRange
           else (case share_producers glob ! nat sid of
                   None \<Rightarrow> Inl NullDereference
                 | Some producer \<Rightarrow> Inr (set_dummy_tlist_references env p offs, glob))))"
| "plan_type_specific_fixes env glob p offs (OtherNode tag) = Inl (UnrecognizedNodeType tag)"
| "plan_type_specific_fixes env glob p offs k = Inl BadCast"

section \<open>The whole tree\<close>

definition cdb_expr_requires_full_eval :: "env \<Rightarrow> tle list \<Rightarrow> bool" where
  "cdb_expr_requires_full_eval env tlst = expression_returns_set env tlst"

text \<open>The cases of the switch that start with the test for a set-returning output list.\<close>

fun has_full_eval_guard :: "plan_kind \<Rightarrow> bool" where
  "has_full_eval_guard (Scan tag scanrelid) =
     (tag = T_SeqScan \<or> tag = T_AppendOnlyScan \<or> tag = T_AOCSScan \<or> tag = T_ExternalScan)"
| "has_full_eval_guard (IndexScan scanrelid iq iqo iob iobo) = True"
| "has_full_eval_guard (BitmapScan tag scanrelid bqo) = True"
| "has_full_eval_guard (TidScan scanrelid tq) = True"
| "has_full_eval_guard (SubqueryScan scanrelid subplan subrtable subrowmark) = True"
| "has_full_eval_guard (TableFunctionScan scanrelid subrtable) = True"
| "has_full_eval_guard (FunctionScan scanrelid fe) = True"
| "has_full_eval_guard (ValuesScan scanrelid vl) = True"
| "has_full_eval_guard (NestLoop jq nps) = True"
| "has_full_eval_guard (MergeJoin jq mc) = True"
| "has_full_eval_guard (HashJoin jq hc hqc) = True"
| "has_full_eval_guard k = False"

text \<open>
  Modelled from the spec: \<open>make_result\<close> (createplan.c) is not in src/.  It builds the
  "wrapping projection node": a \<open>Result\<close> with the given output list and constant filter,
  no residual filter, and the given plan as its only child.
\<close>

definition make_result :: "tle list \<Rightarrow> expr option \<Rightarrow> plan \<Rightarrow> plan" where
  "make_result tlst resconstantqual subplan =
     Plan (Result resconstantqual) tlst [] (Some subplan) None [] None"

fun foreach_glob :: "('s \<Rightarrow> 'a \<Rightarrow> error + 's) \<Rightarrow> 's \<Rightarrow> 'a list \<Rightarrow> error + 's" where
  "foreach_glob f s [] = Inr s"
| "foreach_glob f s (x # xs) = sbind (f s x) (\<lambda>s'. foreach_glob f s' xs)"

text \<open>
  One round of the first loop of \<open>set_plan_references\<close>.  What the three calls of
  \<open>fix_scan_expr\<close> return is dropped: the variables of the copied entry keep their slots.
  But \<open>fix_expr_common\<close> works in place ("We assume it's okay to update opcode info
  in-place"), on the node the mutator was given and before the mutator copies it, so the
  entry that is appended has the operator handles that \<open>set_opfuncid\<close> and
  \<open>set_sa_opfuncid\<close> looked up.  \<open>opfuncids_written\<close> is an expression after such a call:
  the mutator comes to every node of it and calls \<open>fix_expr_common\<close> on every one that is
  neither a \<open>Var\<close> nor a \<open>PlaceHolderVar\<close>.
\<close>

fun opfuncids_written :: "env \<Rightarrow> expr \<Rightarrow> expr" where
  "opfuncids_written env (OpExpr opn f r args) =
     OpExpr opn (set_opfuncid env opn f) r (map (opfuncids_written env) args)"
| "opfuncids_written env (DistinctExpr opn f args) =
     DistinctExpr opn (set_opfuncid env opn f) (map (opfuncids_written env) args)"
| "opfuncids_written env (NullIfExpr opn f args) =
     NullIfExpr opn (set_opfuncid env opn f) (map (opfuncids_written env) args)"
| "opfuncids_written env (ScalarArrayOpExpr opn f args) =
     ScalarArrayOpExpr opn (set_opfuncid env opn f) (map (opfuncids_written env) args)"
| "opfuncids_written env (PlaceHolderVar e i) = PlaceHolderVar (opfuncids_written env e) i"
| "opfuncids_written env (Aggref f args) = Aggref f (map (opfuncids_written env) args)"
| "opfuncids_written env (WindowFunc f args) = WindowFunc f (map (opfuncids_written env) args)"
| "opfuncids_written env (FuncExpr f r args) = FuncExpr f r (map (opfuncids_written env) args)"
| "opfuncids_written env (ArrayCoerceExpr e f) = ArrayCoerceExpr (opfuncids_written env e) f"
| "opfuncids_written env (RelabelType e t) = RelabelType (opfuncids_written env e) t"
| "opfuncids_written env (BoolExpr b args) = BoolExpr b (map (opfuncids_written env) args)"
| "opfuncids_written env node = node"

definition flatten_rtable_entry :: "env \<Rightarrow> nat \<Rightarrow> PlannerGlobal \<Rightarrow> RangeTblEntry \<Rightarrow> error + PlannerGlobal" where
  "flatten_rtable_entry env offs glob rte =
     sbind (fix_scan_expr_opt env glob (rte_funcexpr rte) offs)
       (\<lambda>(fe, glob1).
          sbind (fix_scan_list env glob1 (joinaliasvars rte) offs)
            (\<lambda>(jav, glob2).
               sbind (fix_scan_lists env glob2 (rte_values_lists rte) offs)
                 (\<lambda>(vl, glob3).
                    (let newrte = rte\<lparr>rte_funcexpr :=
                                        map_option (opfuncids_written env) (rte_funcexpr rte),
                                      joinaliasvars :=
                                        map (opfuncids_written env) (joinaliasvars rte),
                                      rte_values_lists :=
                                        map (map (opfuncids_written env)) (rte_values_lists rte)\<rparr>;
                         glob4 = glob3\<lparr>finalrtable := finalrtable glob3 @ [newrte]\<rparr>
                     in Inr (if rtekind rte = RTE_RELATION
                             then glob4\<lparr>relationOids := relationOids glob4 @ [relid rte]\<rparr>
                             else glob4)))))"

text \<open>The two loops of \<open>set_plan_references\<close>, before the plan tree is touched.\<close>

definition flatten_rtable ::
  "env \<Rightarrow> PlannerGlobal \<Rightarrow> RangeTblEntry list \<Rightarrow> PlanRowMark list \<Rightarrow> error + PlannerGlobal" where
  "flatten_rtable env glob rtable rowmarks =
     (let offs = length (finalrtable glob)
      in sbind (foreach_glob (flatten_rtable_entry env offs) glob rtable)
           (\<lambda>glob1. Inr (glob1\<lparr>finalrowmarks :=
                               finalrowmarks glob1 @ map (adjust_rowmark offs) rowmarks\<rparr>)))"

text \<open>
  The functions below call \<open>set_plan_refs\<close> back; \<open>recur\<close> is that call.  Besides the
  node and the context, \<open>set_plan_refs\<close> returns where the node it was given now sits:
  \<open>Some d\<close> when it is \<open>d\<close> left-child links below the returned node (\<open>Some 0\<close>: the same
  node was returned), \<open>None\<close> when it is no longer in the tree.  The source needs no such
  value, it holds the pointer; \<open>cdb_insert_result_node\<close> writes through it after the call.
\<close>

type_synonym recur = "PlannerGlobal \<Rightarrow> plan \<Rightarrow> nat \<Rightarrow> error + (plan \<times> nat option \<times> PlannerGlobal)"

definition set_plan_references_with ::
  "recur \<Rightarrow> env \<Rightarrow> PlannerGlobal \<Rightarrow> plan option \<Rightarrow> RangeTblEntry list \<Rightarrow> PlanRowMark list
   \<Rightarrow> error + (plan option \<times> PlannerGlobal)" where
  "set_plan_references_with recur env glob p rtable rowmarks =
     (let offs = length (finalrtable glob)
      in sbind (flatten_rtable env glob rtable rowmarks)
           (\<lambda>glob1.
              case p of
                None \<Rightarrow> Inr (None, glob1)
              | Some pl \<Rightarrow> sbind (recur glob1 pl offs) (\<lambda>(retPlan, loc, glob2). Inr (Some retPlan, glob2))))"

fun trivial_tlist :: "int \<Rightarrow> tle list \<Rightarrow> tle list \<Rightarrow> bool" where
  "trivial_tlist attrno (ptle # ps) (ctle # cs) =
     (if resjunk ptle \<noteq> resjunk ctle then False
      else (case expr ptle of
              Var v \<Rightarrow> if varattno v \<noteq> attrno then False else trivial_tlist (attrno + 1) ps cs
            | Const t v n \<Rightarrow> if expr ptle \<noteq> expr ctle then False else trivial_tlist (attrno + 1) ps cs
            | _ \<Rightarrow> False))"
| "trivial_tlist attrno ps cs = True"

text \<open>\<open>trivial_subqueryscan\<close>, given the wrapper and its (already processed) subplan.\<close>

definition trivial_subqueryscan :: "plan \<Rightarrow> plan \<Rightarrow> bool" where
  "trivial_subqueryscan p subplan =
     (if qual p \<noteq> [] then False
      else if length (targetlist p) \<noteq> length (targetlist subplan) then False
      else trivial_tlist 1 (targetlist p) (targetlist subplan))"

text \<open>The \<open>forboth\<close> loop that carries the wrapper's column labels over to the subplan.\<close>

fun transfer_resnames :: "tle list \<Rightarrow> tle list \<Rightarrow> tle list" where
  "transfer_resnames (ptle # ps) (ctle # cs) =
     ctle\<lparr>resname := resname ptle, resorigtbl := resorigtbl ptle, resorigcol := resorigcol ptle\<rparr>
       # transfer_resnames ps cs"
| "transfer_resnames ps cs = cs"

definition set_subqueryscan_references_with ::
  "recur \<Rightarrow> env \<Rightarrow> PlannerGlobal \<Rightarrow> plan \<Rightarrow> nat \<Rightarrow> error + (plan \<times> nat option \<times> PlannerGlobal)" where
  "set_subqueryscan_references_with recur env glob p offs =
     (case kind p of
        SubqueryScan scanrelid subplan subrtable subrowmark \<Rightarrow>
          sbind (set_plan_references_with recur env glob (Some subplan) subrtable subrowmark)
            (\<lambda>(sp, glob1).
               case sp of
                 None \<Rightarrow> Inl NullDereference
               | Some subplan' \<Rightarrow>
                   if trivial_subqueryscan p subplan' then
                     Inr (set_flow
                            (set_targetlist
                               (set_initPlan subplan' (initPlan p @ initPlan subplan'))
                               (transfer_resnames (targetlist p) (targetlist subplan')))
                            (flow p),
                          None, glob1)
                   else
                     sbind (fix_scan_tlist_qual env glob1
                              (set_kind p (SubqueryScan (scanrelid + offs) subplan' [] [])) offs)
                       (\<lambda>(p1, glob2). Inr (p1, Some 0, glob2)))
      | _ \<Rightarrow> Inl BadCast)"

definition recur_opt ::
  "recur \<Rightarrow> PlannerGlobal \<Rightarrow> plan option \<Rightarrow> nat \<Rightarrow> error + (plan option \<times> PlannerGlobal)" where
  "recur_opt recur glob p offs =
     (case p of
        None \<Rightarrow> Inr (None, glob)
      | Some pl \<Rightarrow> sbind (recur glob pl offs) (\<lambda>(pl', loc, glob'). Inr (Some pl', glob')))"

text \<open>"Now recurse into child plans, if any": the end of \<open>set_plan_refs\<close>.\<close>

definition recurse_into_children ::
  "recur \<Rightarrow> PlannerGlobal \<Rightarrow> plan \<Rightarrow> nat \<Rightarrow> error + (plan \<times> nat option \<times> PlannerGlobal)" where
  "recurse_into_children recur glob p offs =
     sbind (recur_opt recur glob (lefttree p) offs)
       (\<lambda>(l, glob1).
          sbind (recur_opt recur glob1 (righttree p) offs)
            (\<lambda>(r, glob2). Inr (set_righttree (set_lefttree p l) r, Some 0, glob2)))"

definition recur_list ::
  "recur \<Rightarrow> PlannerGlobal \<Rightarrow> plan list \<Rightarrow> nat \<Rightarrow> error + (plan list \<times> PlannerGlobal)" where
  "recur_list recur glob plans offs =
     mutate_list (\<lambda>g pl. sbind (recur g pl offs) (\<lambda>(pl', loc, g'). Inr (pl', g'))) glob plans"

fun set_flow_at :: "nat \<Rightarrow> Flow option \<Rightarrow> plan \<Rightarrow> plan" where
  "set_flow_at 0 fl p = set_flow p fl"
| "set_flow_at (Suc d) fl p =
     (case lefttree p of
        None \<Rightarrow> p
      | Some c \<Rightarrow> set_lefttree p (Some (set_flow_at d fl c)))"

text \<open>
  \<open>cdb_insert_result_node\<close>.  Its call of \<open>set_plan_refs\<close> is on the \<open>Result\<close> node it has
  just built, which has no Flow: that call runs the \<open>T_Result\<close> case and then recurses
  into the only child, the original node.  The model writes the two steps out, to learn
  from the second where the original node went; the source then stores the Flow into the
  new node and, through its pointer, into the original one.
\<close>

definition cdb_insert_result_node_with ::
  "recur \<Rightarrow> env \<Rightarrow> PlannerGlobal \<Rightarrow> plan \<Rightarrow> nat \<Rightarrow> error + (plan \<times> nat option \<times> PlannerGlobal)" where
  "cdb_insert_result_node_with recur env glob p offs =
     (let fl = flow p;
          p1 = set_targetlist (set_flow p None) (flatten_tlist env (targetlist p));
          resultplan = make_result (targetlist p) None p1
      in sbind (plan_type_specific_fixes env glob resultplan offs (kind resultplan))
           (\<lambda>(r1, glob1).
              sbind (recur glob1 p1 offs)
                (\<lambda>(c, loc, glob2).
                   Inr (set_flow
                          (set_lefttree r1
                             (Some (case loc of None \<Rightarrow> c | Some d \<Rightarrow> set_flow_at d fl c)))
                          fl,
                        map_option Suc loc, glob2))))"

definition fix_flow_hashExpr :: "env \<Rightarrow> PlannerGlobal \<Rightarrow> plan \<Rightarrow> nat \<Rightarrow> error + (plan \<times> PlannerGlobal)" where
  "fix_flow_hashExpr env glob p offs =
     (case flow p of
        None \<Rightarrow> Inr (p, glob)
      | Some fl \<Rightarrow>
          if hashExpr fl \<noteq> [] then
            sbind (fix_upper_list env glob (hashExpr fl) (build_tlist_index (targetlist p)) offs)
              (\<lambda>(he, glob1). Inr (set_flow p (Some (fl\<lparr>hashExpr := he\<rparr>)), glob1))
          else Inr (p, glob))"

text \<open>
  The body of \<open>set_plan_refs\<close> for a node that is not NULL: first the hash expression of
  the node's Flow, fixed against the node's own output list; then the switch on the node
  type (\<open>set_plan_refs_switch\<close>), which for most types ends in the recursion into the two
  child plans.  Sixteen cases of the switch begin with the same test for a set-returning
  output list; it is written once, before the case distinction.
\<close>

definition set_plan_refs_switch ::
  "recur \<Rightarrow> env \<Rightarrow> PlannerGlobal \<Rightarrow> plan \<Rightarrow> nat \<Rightarrow> error + (plan \<times> nat option \<times> PlannerGlobal)" where
  "set_plan_refs_switch recur env glob p offs =
     (if has_full_eval_guard (kind p) \<and> cdb_expr_requires_full_eval env (targetlist p) then
        cdb_insert_result_node_with recur env glob p offs
      else
        (case kind p of
           SubqueryScan scanrelid subplan subrtable subrowmark \<Rightarrow>
             set_subqueryscan_references_with recur env glob p offs
         | TableFunctionScan scanrelid subrtable \<Rightarrow>
             sbind (set_plan_references_with recur env glob (lefttree p) subrtable [])
               (\<lambda>(l, glob2).
                  sbind (fix_scan_tlist_qual env glob2
                           (set_kind (set_lefttree p l) (TableFunctionScan (scanrelid + offs) [])) offs)
                    (\<lambda>(p1, glob3). Inr (p1, Some 0, glob3)))
         | ModifyTable mtResultRelations rowMarks plans resultRelIndex \<Rightarrow>
             sbind (recur_list recur glob plans offs)
               (\<lambda>(plans', glob2).
                  (let rels = map (\<lambda>r. r + offs) mtResultRelations
                   in recurse_into_children recur
                        (glob2\<lparr>resultRelations := resultRelations glob2 @ rels\<rparr>)
                        (set_kind p (ModifyTable rels (map (adjust_rowmark offs) rowMarks) plans'
                                       (length (resultRelations glob2))))
                        offs))
         | PlanList tag plans \<Rightarrow>
             (let p1 = (if tag = T_Append \<or> tag = T_MergeAppend
                        then set_dummy_tlist_references env p offs else p)
              in sbind (recur_list recur glob plans offs)
                   (\<lambda>(plans', glob2).
                      recurse_into_children recur glob2 (set_kind p1 (PlanList tag plans')) offs))
         | k \<Rightarrow>
             sbind (plan_type_specific_fixes env glob p offs k)
               (\<lambda>(p1, glob2). recurse_into_children recur glob2 p1 offs)))"

definition set_plan_refs_with ::
  "recur \<Rightarrow> env \<Rightarrow> PlannerGlobal \<Rightarrow> plan \<Rightarrow> nat \<Rightarrow> error + (plan \<times> nat option \<times> PlannerGlobal)" where
  "set_plan_refs_with recur env glob plan0 offs =
     sbind (fix_flow_hashExpr env glob plan0 offs)
       (\<lambda>(p, glob1). set_plan_refs_switch recur env glob1 p offs)"

text \<open>
  \<open>set_plan_refs\<close>.  \<open>cdb_insert_result_node\<close> calls it back on a node that is no
  smaller than the one it was given, and whether that ends depends on \<open>flatten_tlist\<close>
  and \<open>expression_returns_set\<close>, which are not in src/: the first argument bounds the
  depth of the calls, and \<open>OutOfFuel\<close> is "has not returned within that depth".
\<close>

fun set_plan_refs ::
  "nat \<Rightarrow> env \<Rightarrow> PlannerGlobal \<Rightarrow> plan \<Rightarrow> nat \<Rightarrow> error + (plan \<times> nat option \<times> PlannerGlobal)" where
  "set_plan_refs 0 env glob plan0 offs = Inl OutOfFuel"
| "set_plan_refs (Suc n) env glob plan0 offs =
     set_plan_refs_with (set_plan_refs n env) env glob plan0 offs"

definition set_plan_references ::
  "nat \<Rightarrow> env \<Rightarrow> PlannerGlobal \<Rightarrow> plan option \<Rightarrow> RangeTblEntry list \<Rightarrow> PlanRowMark list
   \<Rightarrow> error + (plan option \<times> PlannerGlobal)" where
  "set_plan_references n env glob p rtable rowmarks =
     set_plan_references_with (set_plan_refs n env) env glob p rtable rowmarks"

definition set_subqueryscan_references ::
  "nat \<Rightarrow> env \<Rightarrow> PlannerGlobal \<Rightarrow> plan \<Rightarrow> nat \<Rightarrow> error + (plan \<times> nat option \<times> PlannerGlobal)" where
  "set_subqueryscan_references n env glob p offs =
     set_subqueryscan_references_with (set_plan_refs n env) env glob p offs"

definition cdb_insert_result_node ::
  "nat \<Rightarrow> env \<Rightarrow> PlannerGlobal \<Rightarrow> plan \<Rightarrow> nat \<Rightarrow> error + (plan \<times> nat option \<times> PlannerGlobal)" where
  "cdb_insert_result_node n env glob p offs =
     cdb_insert_result_node_with (set_plan_refs n env) env glob p offs"

section \<open>Notions used in the properties\<close>

text \<open>The variable references of an expression, left to right.\<close>

fun expr_vars :: "expr \<Rightarrow> var list" where
  "expr_vars (Var v) = [v]"
| "expr_vars (Const t v n) = []"
| "expr_vars (PlaceHolderVar e i) = expr_vars e"
| "expr_vars (Aggref f args) = concat (map expr_vars args)"
| "expr_vars (WindowFunc f args) = concat (map expr_vars args)"
| "expr_vars (FuncExpr f r args) = concat (map expr_vars args)"
| "expr_vars (OpExpr opn f r args) = concat (map expr_vars args)"
| "expr_vars (DistinctExpr opn f args) = concat (map expr_vars args)"
| "expr_vars (NullIfExpr opn f args) = concat (map expr_vars args)"
| "expr_vars (ScalarArrayOpExpr opn f args) = concat (map expr_vars args)"
| "expr_vars (ArrayCoerceExpr e f) = expr_vars e"
| "expr_vars (RelabelType e t) = expr_vars e"
| "expr_vars (BoolExpr b args) = concat (map expr_vars args)"
| "expr_vars Grouping = []"
| "expr_vars GroupId = []"

text \<open>The implementation identifier of a routine, aggregate or window invocation.\<close>

definition implementation_id :: "expr \<Rightarrow> nat option" where
  "implementation_id node =
     (case node of
        FuncExpr f r args \<Rightarrow> Some f
      | Aggref f args \<Rightarrow> Some f
      | WindowFunc f args \<Rightarrow> Some f
      | _ \<Rightarrow> None)"

text \<open>
  \<open>own_side other node node'\<close>: in \<open>node'\<close>, which stands for \<open>node\<close>, no subexpression of
  \<open>node\<close> other than a plain variable or a placeholder has become a reference into the
  child \<open>other\<close>.  Where \<open>node\<close> is a variable anything may stand for it; a placeholder
  has become a variable as a whole or stands as its contained expression does; any other
  node has become a variable of another slot than \<open>other\<close>, or its operands stand one
  for one.
\<close>

function own_side :: "nat \<Rightarrow> expr \<Rightarrow> expr \<Rightarrow> bool" where
  "own_side other node node' =
     (if is_Var node then True
      else if is_PlaceHolderVar node then is_Var node' \<or> own_side other (phexpr node) node'
      else (case node' of
              Var v' \<Rightarrow> varno v' \<noteq> other
            | _ \<Rightarrow> list_all2 (own_side other) (subexprs node) (subexprs node')))"
  by pat_completeness auto
termination
proof (relation "measure (\<lambda>(other, node, node'). size node)")
  fix other :: nat and node node' :: expr
  assume "\<not> is_Var node" and "is_PlaceHolderVar node"
  then show "((other, phexpr node, node'), (other, node, node'))
               \<in> measure (\<lambda>(other, node, node'). size node)"
    by (cases node) simp_all
qed (auto dest: subexprs_size)

declare own_side.simps [simp del]

lemma own_side_Var [simp]: "own_side other (Var v) node' = True"
  by (simp add: own_side.simps)

lemma own_side_PlaceHolderVar [simp]:
  "own_side other (PlaceHolderVar e i) node' = (is_Var node' \<or> own_side other e node')"
  by (subst own_side.simps) simp







text \<open>
  The spec's condition for eliminating a subquery wrapper, in its words: no residual
  filter, and an output list that is a 1:1 positional passthrough of the child's output
  with matching junk flags per position, a literal constant equal to the child's entry
  being accepted in place of the variable.
\<close>

definition passthrough_entry :: "int \<Rightarrow> tle \<Rightarrow> tle \<Rightarrow> bool" where
  "passthrough_entry pos ptle ctle \<longleftrightarrow>
     resjunk ptle = resjunk ctle
     \<and> (case expr ptle of
           Var v \<Rightarrow> varattno v = pos
         | Const t v n \<Rightarrow> expr ptle = expr ctle
         | _ \<Rightarrow> False)"

definition passthrough_of_child :: "plan \<Rightarrow> plan \<Rightarrow> bool" where
  "passthrough_of_child p subplan \<longleftrightarrow>
     qual p = [] \<and> length (targetlist p) = length (targetlist subplan)
     \<and> (\<forall>i\<in>{0..<length (targetlist p)}.
           passthrough_entry (int i + 1) (targetlist p ! i) (targetlist subplan ! i))"

section \<open>Depth of the calls\<close>

text \<open>
  \<open>returns m\<close>: the computation \<open>m\<close> has come to an end within the depth it was given, with
  a result or with one of the errors of the source.
\<close>

definition returns :: "error + 'a \<Rightarrow> bool" where
  "returns m \<longleftrightarrow> m \<noteq> Inl OutOfFuel"

text \<open>
  \<open>fuel_le a b\<close>: \<open>b\<close> is what \<open>a\<close> is, unless \<open>a\<close> has not returned within its depth.
\<close>

definition fuel_le :: "error + 'a \<Rightarrow> error + 'a \<Rightarrow> bool" where
  "fuel_le a b \<longleftrightarrow> a = Inl OutOfFuel \<or> a = b"












section \<open>Concrete inputs\<close>

text \<open>
  Values for the parameters and small plans, on which the properties below are run.
  The identifiers are those of a stock installation; nothing depends on them.
\<close>

definition example_tle :: "expr \<Rightarrow> int \<Rightarrow> tle" where
  "example_tle e n =
     \<lparr>expr = e, resno = n, resname = [], ressortgroupref = 0, resorigtbl = 0, resorigcol = 0,
      resjunk = False\<rparr>"

definition example_var :: "nat \<Rightarrow> int \<Rightarrow> var" where
  "example_var vno attno = makeVar vno attno 23 (-1) 0 0"

definition example_env :: env where
  "example_env =
     \<lparr>INNER = 65000, OUTER = 65001, InvalidOid = 0, FirstBootstrapObjectId = 10000,
      FirstLowInvalidHeapAttributeNumber = -9, REGCLASSOID = 2205, OIDOID = 26, PROCOID = 42,
      get_opcode = (\<lambda>opn. opn + 1),
      SearchSysCache1_PROCOID = (\<lambda>f. Some (f, 1)),
      cdb_rte_find_pseudo_column =
        (\<lambda>rte attno. case map_of (pseudocols rte) attno of Some (Some d) \<Rightarrow> Some d | _ \<Rightarrow> None),
      exprType = (\<lambda>e. case e of Var v \<Rightarrow> vartype v | Const t v n \<Rightarrow> t | _ \<Rightarrow> 0),
      exprTypmod = (\<lambda>e. -1),
      exprCollation = (\<lambda>e. 0),
      expression_returns_set =
        list_ex (\<lambda>t. case expr t of FuncExpr f r args \<Rightarrow> r | _ \<Rightarrow> False),
      flatten_tlist =
        (\<lambda>tlst. map (\<lambda>(n, v). example_tle (Var v) (int n))
                  (enumerate 1 (remdups (concat (map (\<lambda>t. expr_vars (expr t)) tlst)))))\<rparr>"

definition example_glob :: PlannerGlobal where
  "example_glob =
     \<lparr>finalrtable = [], finalrowmarks = [], relationOids = [], invalItems = [],
      resultRelations = [], share_producers = []\<rparr>"

definition example_rte :: "RTEKind \<Rightarrow> nat \<Rightarrow> RangeTblEntry" where
  "example_rte k oid =
     \<lparr>rtekind = k, relid = oid, rte_funcexpr = None, joinaliasvars = [], rte_values_lists = [],
      pseudocols = [], eref = []\<rparr>"

text \<open>
  A hash join of A (slot 1) and B (slot 2) on \<open>A.i = f(B.i, 4)\<close>, where the constant 4 is
  also an entry of A's output list.
\<close>

definition example_outer_tlist :: "tle list" where
  "example_outer_tlist = [example_tle (Var (example_var 1 1)) 1, example_tle (Const 23 4 False) 2]"

definition example_inner_tlist :: "tle list" where
  "example_inner_tlist = [example_tle (Var (example_var 2 1)) 1]"

definition example_hashclause :: expr where
  "example_hashclause =
     OpExpr 96 0 False
       [Var (example_var 1 1),
        FuncExpr 20000 False [Var (example_var 2 1), Const 23 4 False]]"

text \<open>A range table whose fourth entry defines the pseudo column -10 as \<open>col2 = 5\<close>.\<close>

definition example_pseudo_defexpr :: expr where
  "example_pseudo_defexpr = OpExpr 96 0 False [Var (example_var 1 2), Const 23 5 False]"

definition example_pseudo_glob :: PlannerGlobal where
  "example_pseudo_glob =
     example_glob\<lparr>finalrtable :=
       [example_rte RTE_RELATION 500, example_rte RTE_RELATION 501, example_rte RTE_SUBQUERY 0,
        (example_rte RTE_RELATION 502)\<lparr>pseudocols := [(-10, Some example_pseudo_defexpr)]\<rparr>]\<rparr>"

text \<open>
  The context of a RETURNING list: one indexed list, no inner one, slot 3 acceptable.
\<close>

definition example_returning_ctx :: fix_join_expr_context where
  "example_returning_ctx =
     \<lparr>outer_itlist = build_tlist_index [example_tle (Var (example_var 1 1)) 1],
      inner_itlist = None, acceptable_rel = 3, rtoffset = 0,
      use_outer_tlist_for_matching_nonvars = True,
      use_inner_tlist_for_matching_nonvars = True\<rparr>"

definition example_plan :: "plan_kind \<Rightarrow> tle list \<Rightarrow> plan option \<Rightarrow> plan" where
  "example_plan k tlst child = Plan k tlst [] child None [] None"

definition example_seqscan :: plan where
  "example_seqscan = example_plan (Scan T_SeqScan 1) [example_tle (Var (example_var 1 1)) 1] None"

definition example_result_over_scan :: plan where
  "example_result_over_scan =
     example_plan (Result None) [example_tle (Var (example_var 1 1)) 1] (Some example_seqscan)"

definition example_subquery :: plan where
  "example_subquery =
     example_plan (SubqueryScan 1 example_result_over_scan [example_rte RTE_RELATION 500] [])
       [(example_tle (Var (example_var 1 1)) 1)\<lparr>resname := ''total''\<rparr>] None"

definition example_srf_tlist :: "tle list" where
  "example_srf_tlist = [example_tle (FuncExpr 20000 True [Var (example_var 1 1)]) 1]"

definition example_srf_seqscan :: plan where
  "example_srf_seqscan = example_plan (Scan T_SeqScan 1) example_srf_tlist None"

definition example_srf_ctescan :: plan where
  "example_srf_ctescan = example_plan (Scan T_CteScan 1) example_srf_tlist None"

text \<open>A shared scan without a child of its own, and a context that has its producer.\<close>

definition example_shared_scan :: plan where
  "example_shared_scan =
     Plan (ShareInputScan 0) [example_tle (Var (example_var 1 1)) 1] [] None None [] None"

definition example_share_glob :: PlannerGlobal where
  "example_share_glob =
     example_glob\<lparr>share_producers :=
       [Some (Plan (ShareInputScan 0) [example_tle (Var (example_var 1 1)) 1] []
                (Some (Plan (Plain T_Material) [example_tle (Var (example_var 1 1)) 1] []
                         None None [] None))
                None [] None)]\<rparr>"

definition example_sort :: plan where
  "example_sort =
     example_plan (Plain T_Sort)
       [example_tle (Var (example_var 1 1)) 1, example_tle (Var (example_var 1 2)) 2]
       (Some example_seqscan)"

definition example_outer_glob :: PlannerGlobal where
  "example_outer_glob = example_glob\<lparr>finalrtable := [example_rte RTE_SUBQUERY 0]\<rparr>"

definition example_filtering_subquery :: plan where
  "example_filtering_subquery =
     set_qual example_subquery [OpExpr 96 0 False [Var (example_var 1 1), Const 23 7 False]]"

definition example_pulled_up_subplan :: plan where
  "example_pulled_up_subplan =
     Plan (Result None)
       [example_tle (Var ((example_var 65002 1)\<lparr>varnoold := 3\<rparr>)) 1] []
       (Some (Plan (Scan T_SeqScan 2)
                [example_tle (Var ((example_var 2 1)\<lparr>varnoold := 2\<rparr>)) 1] [] None None [] None))
       None [] None"


section \<open>Lemmas about the traversals\<close>

lemma mutate_list_all2:
  "mutate_list f s xs = Inr (ys, s') \<Longrightarrow> list_all2 (\<lambda>x y. \<exists>s1 s2. f s1 x = Inr (y, s2)) xs ys"
proof (induction xs arbitrary: s ys)
  case Nil
  then show ?case by simp
next
  case (Cons a as)
  from Cons.prems obtain y s1 zs where
    a: "f s a = Inr (y, s1)" and r: "mutate_list f s1 as = Inr (zs, s')" and ys: "ys = y # zs"
    by (auto split: sum.splits)
  from Cons.IH [OF r] a ys show ?case by auto
qed

lemma expression_tree_mutator_Inr:
  "expression_tree_mutator node f s = Inr (r, s')
   \<Longrightarrow> \<exists>es. mutate_list f s (subexprs node) = Inr (es, s') \<and> r = with_subexprs node es"
  by (auto simp: expression_tree_mutator_def split: sum.splits)

lemma fix_expr_common_vars:
  "fix_expr_common env glob node = Inr (node', glob')
   \<Longrightarrow> expr_vars node' = expr_vars node \<and> is_Var node' = is_Var node"
  by (cases node) (auto simp: with_glob_def Let_def split: sum.splits if_splits)

lemma expr_vars_with_subexprs:
  "\<not> is_Var node \<Longrightarrow> length es = length (subexprs node)
   \<Longrightarrow> expr_vars (with_subexprs node es) = concat (map expr_vars es)"
  by (cases node; cases es) auto

lemma expr_vars_subexprs:
  "\<not> is_Var node \<Longrightarrow> expr_vars node = concat (map expr_vars (subexprs node))"
  by (cases node) auto

lemma rebuilt_vars:
  assumes "fix_expr_common env glob node = Inr (node', glob')"
    and "expression_tree_mutator node' f glob' = Inr (r, s')"
    and "\<not> is_Var node"
  shows "\<exists>es. list_all2 (\<lambda>x y. \<exists>s1 s2. f s1 x = Inr (y, s2)) (subexprs node) es
            \<and> expr_vars r = concat (map expr_vars es)"
proof -
  from expression_tree_mutator_Inr [OF assms(2)] obtain es where
    es: "mutate_list f glob' (subexprs node') = Inr (es, s')" and r: "r = with_subexprs node' es"
    by blast
  have sub: "subexprs node' = subexprs node"
    using fix_expr_common_subexprs [OF assms(1)] .
  have all2: "list_all2 (\<lambda>x y. \<exists>s1 s2. f s1 x = Inr (y, s2)) (subexprs node) es"
    using mutate_list_all2 [OF es] sub by simp
  have nv: "\<not> is_Var node'"
    using fix_expr_common_vars [OF assms(1)] assms(3) by simp
  have "expr_vars r = concat (map expr_vars es)"
    using expr_vars_with_subexprs [OF nv, of es] all2 sub r
    by (simp add: list_all2_lengthD)
  with all2 show ?thesis by blast
qed

lemma walker_keeps_vars:
  "fix_scan_expr_walker env glob node = Inr (e', glob') \<Longrightarrow> expr_vars e' = expr_vars node"
proof (induction node arbitrary: glob e' glob' rule: measure_induct_rule [of size])
  case (less node)
  from less.prems obtain n1 g1 where
    c: "fix_expr_common env glob node = Inr (n1, g1)"
    and m: "expression_tree_mutator n1 (fix_scan_expr_walker env) g1 = Inr (e', glob')"
    by (auto split: sum.splits)
  show ?case
  proof (cases "is_Var node")
    case True
    then obtain v where "node = Var v" by (cases node) auto
    with c m show ?thesis by (auto simp: expression_tree_mutator_def)
  next
    case False
    from rebuilt_vars [OF c m False] obtain es where
      all2: "list_all2 (\<lambda>x y. \<exists>s1 s2. fix_scan_expr_walker env s1 x = Inr (y, s2)) (subexprs node) es"
      and r: "expr_vars e' = concat (map expr_vars es)"
      by blast
    have "list_all2 (\<lambda>x y. expr_vars y = expr_vars x) (subexprs node) es"
      using all2
    proof (rule list.rel_mono_strong)
      fix x y
      assume "x \<in> set (subexprs node)" and "\<exists>s1 s2. fix_scan_expr_walker env s1 x = Inr (y, s2)"
      then show "expr_vars y = expr_vars x"
        using less.IH [of x] subexprs_size [of x node] by blast
    qed
    then have "map expr_vars es = map expr_vars (subexprs node)"
      by (induction rule: list_all2_induct) auto
    with r show ?thesis using expr_vars_subexprs [OF False] by simp
  qed
qed



lemma fix_join_other:
  "\<not> is_Var node \<Longrightarrow> \<not> is_PlaceHolderVar node \<Longrightarrow>
   fix_join_expr_mutator env ctx glob node =
     (case search_join_non_var env ctx node of
        Some newvar \<Rightarrow> Inr (Var newvar, glob)
      | None \<Rightarrow>
          (case fix_expr_common env glob node of
             Inl e \<Rightarrow> Inl e
           | Inr (node', glob') \<Rightarrow> expression_tree_mutator node' (fix_join_expr_mutator env ctx) glob'))"
  by (cases node) auto

lemma fix_upper_other:
  "\<not> is_Var node \<Longrightarrow> \<not> is_PlaceHolderVar node \<Longrightarrow>
   fix_upper_expr_mutator env (itl, offs) glob node =
     (case (if has_non_vars itl \<and> \<not> is_GroupId node
            then search_indexed_tlist_for_non_var env node itl (OUTER env) else None) of
        Some newvar \<Rightarrow> Inr (Var newvar, glob)
      | None \<Rightarrow>
          (case fix_expr_common env glob node of
             Inl e \<Rightarrow> Inl e
           | Inr (node', glob') \<Rightarrow>
               expression_tree_mutator node' (fix_upper_expr_mutator env (itl, offs)) glob'))"
  by (cases node) auto

lemma search_var_varno:
  "search_indexed_tlist_for_var v itl newvarno offs = Some nv \<Longrightarrow> varno nv = newvarno"
  by (auto simp: search_indexed_tlist_for_var_def Let_def split: option.splits if_splits)


lemma expr_cases3:
  obtains (var) v where "node = Var v"
  | (phv) e i where "node = PlaceHolderVar e i"
  | (other) "\<not> is_Var node" "\<not> is_PlaceHolderVar node"
  by (cases node) auto






lemmas example_defs =
  example_env_def example_glob_def example_tle_def example_var_def example_rte_def makeVar_def
  example_outer_tlist_def example_inner_tlist_def example_hashclause_def
  example_pseudo_defexpr_def example_pseudo_glob_def

lemmas fixer_defs =
  build_tlist_index_def fix_child_hashclauses_def search_join_var_def search_join_non_var_def
  search_join_phv_def search_indexed_tlist_for_var_def search_indexed_tlist_for_non_var_def
  search_indexed_tlist_for_sortgroupref_def tlist_member_def makeVarFromTargetEntry_def
  expression_tree_mutator_def with_glob_def record_plan_function_dependency_def set_opfuncid_def
  ISREGCLASSCONST_def copyVar_offset_def rt_fetch_def fix_scan_expr_def fix_scan_list_def
  fix_scan_tlist_def mutate_tle_def fix_upper_expr_def fix_upper_list_def fix_upper_tlist_def
  fix_join_expr_def fix_join_tlist_def fix_hashclauses_def fix_scan_expr_opt_def
  fix_upper_expr_opt_def fix_scan_lists_def

lemma all2_left:
  "list_all2 R xs ys \<Longrightarrow> x \<in> set xs \<Longrightarrow> \<exists>y. R x y"
  by (induction rule: list_all2_induct) auto

lemma upper_success_all_matched:
  assumes "\<not> has_non_vars itl" and "\<not> has_ph_vars itl"
  shows "fix_upper_expr_mutator env (itl, offs) glob node = Inr (node', glob')
    \<Longrightarrow> \<forall>v\<in>set (expr_vars node). search_indexed_tlist_for_var v itl (OUTER env) offs \<noteq> None"
proof (induction node arbitrary: glob node' glob' rule: measure_induct_rule [of size])
  case (less node)
  show ?case
  proof (cases node rule: expr_cases3)
    case (var v)
    with less.prems show ?thesis by (auto split: option.splits)
  next
    case (phv e i)
    with less.prems assms have "fix_upper_expr_mutator env (itl, offs) glob e = Inr (node', glob')"
      by simp
    from less.IH [OF _ this] phv show ?thesis by simp
  next
    case other
    with less.prems fix_upper_other [OF other, of env itl offs glob] assms obtain n1 g1 where
      c: "fix_expr_common env glob node = Inr (n1, g1)"
      and m: "expression_tree_mutator n1 (fix_upper_expr_mutator env (itl, offs)) g1 = Inr (node', glob')"
      by (auto split: sum.splits)
    from rebuilt_vars [OF c m other(1)] obtain es where
      all2: "list_all2 (\<lambda>x y. \<exists>s1 s2. fix_upper_expr_mutator env (itl, offs) s1 x = Inr (y, s2))
               (subexprs node) es"
      by blast
    have "\<forall>x\<in>set (subexprs node). \<forall>v\<in>set (expr_vars x).
            search_indexed_tlist_for_var v itl (OUTER env) offs \<noteq> None"
    proof
      fix x
      assume x: "x \<in> set (subexprs node)"
      from all2_left [OF all2 x] obtain y s1 s2 where "fix_upper_expr_mutator env (itl, offs) s1 x = Inr (y, s2)"
        by blast
      from less.IH [OF subexprs_size [OF x] this]
      show "\<forall>v\<in>set (expr_vars x). search_indexed_tlist_for_var v itl (OUTER env) offs \<noteq> None" .
    qed
    then show ?thesis using expr_vars_subexprs [OF other(1)] by auto
  qed
qed

lemma join_success_all_matched:
  assumes "\<not> has_non_vars (outer_itlist ctx)" and "\<not> has_ph_vars (outer_itlist ctx)"
    and "\<forall>inner. inner_itlist ctx = Some inner \<longrightarrow> \<not> has_non_vars inner \<and> \<not> has_ph_vars inner"
  shows "fix_join_expr_mutator env ctx glob node = Inr (node', glob')
    \<Longrightarrow> \<forall>v\<in>set (expr_vars node). search_join_var env ctx v \<noteq> None \<or> varno v = acceptable_rel ctx"
proof (induction node arbitrary: glob node' glob' rule: measure_induct_rule [of size])
  case (less node)
  show ?case
  proof (cases node rule: expr_cases3)
    case (var v)
    with less.prems show ?thesis by (auto split: option.splits if_splits)
  next
    case (phv e i)
    have "search_join_phv env ctx (PlaceHolderVar e i) = None"
      using assms by (auto simp: search_join_phv_def split: option.splits)
    with less.prems phv have "fix_join_expr_mutator env ctx glob e = Inr (node', glob')"
      by simp
    from less.IH [OF _ this] phv show ?thesis by simp
  next
    case other
    have "search_join_non_var env ctx node = None"
      using assms by (auto simp: search_join_non_var_def split: option.splits)
    with less.prems fix_join_other [OF other, of env ctx glob] obtain n1 g1 where
      c: "fix_expr_common env glob node = Inr (n1, g1)"
      and m: "expression_tree_mutator n1 (fix_join_expr_mutator env ctx) g1 = Inr (node', glob')"
      by (auto split: sum.splits)
    from rebuilt_vars [OF c m other(1)] obtain es where
      all2: "list_all2 (\<lambda>x y. \<exists>s1 s2. fix_join_expr_mutator env ctx s1 x = Inr (y, s2))
               (subexprs node) es"
      by blast
    have "\<forall>x\<in>set (subexprs node). \<forall>v\<in>set (expr_vars x).
            search_join_var env ctx v \<noteq> None \<or> varno v = acceptable_rel ctx"
    proof
      fix x
      assume x: "x \<in> set (subexprs node)"
      from all2_left [OF all2 x] obtain y s1 s2 where "fix_join_expr_mutator env ctx s1 x = Inr (y, s2)"
        by blast
      from less.IH [OF subexprs_size [OF x] this]
      show "\<forall>v\<in>set (expr_vars x). search_join_var env ctx v \<noteq> None \<or> varno v = acceptable_rel ctx" .
    qed
    then show ?thesis using expr_vars_subexprs [OF other(1)] by auto
  qed
qed


lemma example_pseudo_fixed:
  "fix_scan_expr example_env example_pseudo_glob (Var (example_var 1 (-10))) 3
     = Inr (OpExpr 96 97 False [Var (example_var 1 2), Const 23 5 False], example_pseudo_glob)"
  by (simp add: example_defs fixer_defs)

lemmas plan_defs =
  set_kind_def set_targetlist_def set_qual_def set_lefttree_def set_righttree_def set_initPlan_def
  set_flow_def fix_scan_tlist_qual_def adjust_rowmark_def cdb_expr_requires_full_eval_def
  make_result_def flatten_rtable_entry_def flatten_rtable_def set_plan_references_with_def
  trivial_subqueryscan_def set_subqueryscan_references_with_def recur_opt_def
  recurse_into_children_def recur_list_def cdb_insert_result_node_with_def fix_flow_hashExpr_def
  set_plan_references_def set_subqueryscan_references_def cdb_insert_result_node_def
  set_plan_refs_switch_def set_plan_refs_with_def
  set_upper_references_def upper_tle_def set_join_references_def fix_nestParam_def
  set_dummy_tlist_references_def dummy_tle_def set_returning_clause_references_def

lemmas example_plan_defs =
  example_plan_def example_seqscan_def example_result_over_scan_def example_subquery_def
  example_srf_tlist_def example_srf_seqscan_def example_srf_ctescan_def example_shared_scan_def
  example_share_glob_def
  example_sort_def

lemma fuel3: "(3::nat) = Suc (Suc (Suc 0))" by simp


lemma fix_scan_tlist_qual_frame:
  "fix_scan_tlist_qual env glob p offs = Inr (p1, glob1)
   \<Longrightarrow> kind p1 = kind p \<and> lefttree p1 = lefttree p \<and> righttree p1 = righttree p
     \<and> initPlan p1 = initPlan p \<and> flow p1 = flow p"
  by (auto simp: fix_scan_tlist_qual_def set_targetlist_def set_qual_def sbind_eq_Inr)










lemma fuel2: "(2::nat) = Suc (Suc 0)" by simp




lemma trivial_tlist_Cons:
  "trivial_tlist a (x # xs) (y # ys) \<longleftrightarrow> passthrough_entry a x y \<and> trivial_tlist (a + 1) xs ys"
  by (cases "expr x") (auto simp: passthrough_entry_def)

lemma trivial_tlist_iff:
  "length ps = length cs \<Longrightarrow>
   trivial_tlist a ps cs \<longleftrightarrow> (\<forall>i<length ps. passthrough_entry (a + int i) (ps ! i) (cs ! i))"
proof (induction ps cs arbitrary: a rule: list_induct2)
  case Nil
  then show ?case by simp
next
  case (Cons x xs y ys)
  have step: "\<And>P. (\<forall>i<Suc (length xs). P i) \<longleftrightarrow> P 0 \<and> (\<forall>i<length xs. P (Suc i))"
    by (auto simp: less_Suc_eq_0_disj)
  have shift: "\<And>i. a + int (Suc i) = a + 1 + int i"
    by simp
  show ?case
    unfolding trivial_tlist_Cons Cons.IH length_Cons step nth_Cons_0 nth_Cons_Suc shift
    by simp
qed

lemma trivial_subqueryscan_iff:
  "trivial_subqueryscan p subplan \<longleftrightarrow> passthrough_of_child p subplan"
proof (cases "qual p = [] \<and> length (targetlist p) = length (targetlist subplan)")
  case True
  then show ?thesis
    using trivial_tlist_iff [of "targetlist p" "targetlist subplan" 1]
    by (auto simp: trivial_subqueryscan_def passthrough_of_child_def add.commute)
next
  case False
  then show ?thesis
    by (auto simp: trivial_subqueryscan_def passthrough_of_child_def)
qed

lemma transfer_resnames_nth:
  "length ps = length cs \<Longrightarrow>
   length (transfer_resnames ps cs) = length cs
   \<and> (\<forall>i<length cs. transfer_resnames ps cs ! i =
         (cs ! i)\<lparr>resname := resname (ps ! i), resorigtbl := resorigtbl (ps ! i),
                  resorigcol := resorigcol (ps ! i)\<rparr>)"
proof (induction ps cs rule: list_induct2)
  case Nil
  then show ?case by simp
next
  case (Cons x xs y ys)
  then show ?case by (auto simp: nth_Cons split: nat.splits)
qed

lemma example_subquery_pulled_up:
  "set_subqueryscan_references (Suc (Suc 0)) example_env example_outer_glob example_subquery 0
   = Inr (Plan (Result None)
            [(example_tle (Var ((example_var 65002 1)\<lparr>varnoold := 3\<rparr>)) 1)\<lparr>resname := ''total''\<rparr>]
            []
            (Some (Plan (Scan T_SeqScan 2)
                     [example_tle (Var ((example_var 2 1)\<lparr>varnoold := 2\<rparr>)) 1] [] None None [] None))
            None [] None,
          None,
          example_glob\<lparr>finalrtable := [example_rte RTE_SUBQUERY 0, example_rte RTE_RELATION 500],
                       relationOids := [500]\<rparr>)"
  by (simp add: example_defs example_plan_defs plan_defs fixer_defs example_outer_glob_def)

subsection \<open>Returning within the depth given\<close>


lemma returns_Inl [simp]: "returns (Inl e) \<longleftrightarrow> e \<noteq> OutOfFuel"
  by (simp add: returns_def)





























































lemma fuel_le_refl [simp, intro!]: "fuel_le a a"
  by (simp add: fuel_le_def)

lemma fuel_le_OutOfFuel [simp, intro!]: "fuel_le (Inl OutOfFuel) b"
  by (simp add: fuel_le_def)






















section \<open>Properties\<close>

subsection \<open>Dependency collector\<close>

text \<open>
  Claim C7.  For a routine, aggregate or window invocation with implementation identifier
  \<open>f\<close>, the dependency collector \<open>fix_expr_common\<close> appends an entry for \<open>f\<close> to the
  function-dependency list \<open>invalItems\<close> if and only if \<open>f\<close> is at or above
  \<open>FirstBootstrapObjectId\<close>: whenever it returns, what it has appended is the one entry
  for the catalog row of \<open>f\<close> when \<open>f\<close> is at or above the threshold and nothing when
  \<open>f\<close> is below it; and below the threshold it always returns, with the context unchanged.
\<close>

theorem function_dependency_iff_not_builtin:
  assumes "implementation_id node = Some f"
  shows "(f < FirstBootstrapObjectId env \<longrightarrow> fix_expr_common env glob node = Inr (node, glob))
       \<and> (fix_expr_common env glob node = Inr (node', glob') \<longrightarrow>
            (invalItems glob' \<noteq> invalItems glob \<longleftrightarrow> FirstBootstrapObjectId env \<le> f)
          \<and> (\<exists>items. invalItems glob' = invalItems glob @ items
                \<and> (FirstBootstrapObjectId env \<le> f \<longrightarrow>
                      (\<exists>t_self. SearchSysCache1_PROCOID env f = Some t_self
                         \<and> items = [\<lparr>cacheId = PROCOID env, tupleId = t_self\<rparr>]))
                \<and> (f < FirstBootstrapObjectId env \<longrightarrow> items = [])))"
  using assms
  by (cases node)
     (auto simp: implementation_id_def with_glob_def record_plan_function_dependency_def
           split: option.splits if_splits)

theorem function_dependency_witness:
  "implementation_id (FuncExpr 20000 False []) = Some 20000
   \<and> fix_expr_common example_env example_glob (FuncExpr 20000 False [])
       = Inr (FuncExpr 20000 False [], example_glob\<lparr>invalItems := [\<lparr>cacheId = 42, tupleId = (20000, 1)\<rparr>]\<rparr>)
   \<and> fix_expr_common example_env example_glob (FuncExpr 1242 False [])
       = Inr (FuncExpr 1242 False [], example_glob)"
proof -
  have a: "implementation_id (FuncExpr 20000 False []) = Some 20000"
    by (simp add: implementation_id_def)
  have b: "implementation_id (FuncExpr 1242 False []) = Some 1242"
    by (simp add: implementation_id_def)
  have c: "fix_expr_common example_env example_glob (FuncExpr 20000 False [])
       = Inr (FuncExpr 20000 False [], example_glob\<lparr>invalItems := [\<lparr>cacheId = 42, tupleId = (20000, 1)\<rparr>]\<rparr>)"
    by (simp add: with_glob_def record_plan_function_dependency_def example_env_def example_glob_def)
  from function_dependency_iff_not_builtin [OF b, of example_env example_glob]
  have d: "fix_expr_common example_env example_glob (FuncExpr 1242 False [])
       = Inr (FuncExpr 1242 False [], example_glob)"
    by (simp add: example_env_def)
  show ?thesis using a c d by simp
qed

subsection \<open>Unmatched variables\<close>

text \<open>
  Claim C4.  When the join-expression fixer meets a variable that is in neither child's
  indexed target list, it raises \<open>VariableNotFoundJoin\<close> unless the variable's slot is the
  acceptable slot of the context; then the variable is returned with every field as it
  was, except that its original slot \<open>varnoold\<close>, when set (positive), is shifted by the
  offset.  The upper-node fixer raises \<open>VariableNotFoundUpper\<close> for every variable that is
  not in the child's indexed target list.  Nothing catches either error: when the fixer of
  a whole expression returns, and the indexed lists hold plain variables only (so that no
  subexpression is replaced as a whole), every variable of the expression was matched
  (or, in a join expression, had the acceptable slot).
\<close>

theorem unmatched_variable_is_fatal:
  "(search_join_var env ctx v = None \<longrightarrow>
      fix_join_expr_mutator env ctx glob (Var v) =
        (if varno v = acceptable_rel ctx
         then Inr (Var (v\<lparr>varnoold := (if 0 < varnoold v then varnoold v + rtoffset ctx
                                       else varnoold v)\<rparr>), glob)
         else Inl VariableNotFoundJoin))
   \<and> (search_indexed_tlist_for_var v itl (OUTER env) offs = None \<longrightarrow>
        fix_upper_expr_mutator env (itl, offs) glob (Var v) = Inl VariableNotFoundUpper)
   \<and> (\<not> has_non_vars itl \<and> \<not> has_ph_vars itl
        \<and> fix_upper_expr env glob node itl offs = Inr (node', glob') \<longrightarrow>
        (\<forall>w\<in>set (expr_vars node). search_indexed_tlist_for_var w itl (OUTER env) offs \<noteq> None))
   \<and> (\<not> has_non_vars (outer_itlist ctx) \<and> \<not> has_ph_vars (outer_itlist ctx)
        \<and> (\<forall>inner. inner_itlist ctx = Some inner \<longrightarrow> \<not> has_non_vars inner \<and> \<not> has_ph_vars inner)
        \<and> fix_join_expr_mutator env ctx glob node = Inr (node', glob') \<longrightarrow>
        (\<forall>w\<in>set (expr_vars node). search_join_var env ctx w \<noteq> None \<or> varno w = acceptable_rel ctx))"
proof (intro conjI impI)
  assume "search_join_var env ctx v = None"
  then show "fix_join_expr_mutator env ctx glob (Var v) =
        (if varno v = acceptable_rel ctx
         then Inr (Var (v\<lparr>varnoold := (if 0 < varnoold v then varnoold v + rtoffset ctx
                                       else varnoold v)\<rparr>), glob)
         else Inl VariableNotFoundJoin)"
    by simp
next
  assume "search_indexed_tlist_for_var v itl (OUTER env) offs = None"
  then show "fix_upper_expr_mutator env (itl, offs) glob (Var v) = Inl VariableNotFoundUpper"
    by simp
next
  assume "\<not> has_non_vars itl \<and> \<not> has_ph_vars itl
        \<and> fix_upper_expr env glob node itl offs = Inr (node', glob')"
  then show "\<forall>w\<in>set (expr_vars node). search_indexed_tlist_for_var w itl (OUTER env) offs \<noteq> None"
    using upper_success_all_matched [of itl env offs glob node node' glob']
    by (simp add: fix_upper_expr_def)
next
  assume "\<not> has_non_vars (outer_itlist ctx) \<and> \<not> has_ph_vars (outer_itlist ctx)
        \<and> (\<forall>inner. inner_itlist ctx = Some inner \<longrightarrow> \<not> has_non_vars inner \<and> \<not> has_ph_vars inner)
        \<and> fix_join_expr_mutator env ctx glob node = Inr (node', glob')"
  then show "\<forall>w\<in>set (expr_vars node). search_join_var env ctx w \<noteq> None \<or> varno w = acceptable_rel ctx"
    using join_success_all_matched [of ctx env glob node node' glob'] by blast
qed

theorem unmatched_variable_witness:
  "search_join_var example_env example_returning_ctx (example_var 3 2) = None
   \<and> fix_join_expr_mutator example_env example_returning_ctx example_glob (Var (example_var 3 2))
       = Inr (Var (example_var 3 2), example_glob)
   \<and> fix_join_expr_mutator example_env (example_returning_ctx\<lparr>acceptable_rel := 0\<rparr>) example_glob
         (Var (example_var 3 2)) = Inl VariableNotFoundJoin
   \<and> search_indexed_tlist_for_var (example_var 3 2) (outer_itlist example_returning_ctx)
         (OUTER example_env) 0 = None
   \<and> fix_upper_expr_mutator example_env (outer_itlist example_returning_ctx, 0) example_glob
         (Var (example_var 3 2)) = Inl VariableNotFoundUpper
   \<and> \<not> has_non_vars (outer_itlist example_returning_ctx)
   \<and> \<not> has_ph_vars (outer_itlist example_returning_ctx)
   \<and> fix_upper_expr example_env example_glob (FuncExpr 1242 False [Var (example_var 1 1)])
         (outer_itlist example_returning_ctx) 0
       = Inr (FuncExpr 1242 False [Var ((example_var 65001 1)\<lparr>varnoold := 1\<rparr>)], example_glob)
   \<and> fix_join_expr_mutator example_env example_returning_ctx example_glob
         (FuncExpr 1242 False [Var (example_var 1 1)])
       = Inr (FuncExpr 1242 False [Var ((example_var 65001 1)\<lparr>varnoold := 1\<rparr>)], example_glob)
   \<and> expr_vars (FuncExpr 1242 False [Var (example_var 1 1)]) = [example_var 1 1]
   \<and> search_join_var example_env example_returning_ctx (example_var 1 1)
       = Some ((example_var 65001 1)\<lparr>varnoold := 1\<rparr>)"
proof -
  have a: "search_join_var example_env example_returning_ctx (example_var 3 2) = None"
    by (simp add: example_defs fixer_defs example_returning_ctx_def)
  have b: "search_indexed_tlist_for_var (example_var 3 2) (outer_itlist example_returning_ctx)
         (OUTER example_env) 0 = None"
    by (simp add: example_defs fixer_defs example_returning_ctx_def)
  have c: "\<not> has_non_vars (outer_itlist example_returning_ctx)"
    "\<not> has_ph_vars (outer_itlist example_returning_ctx)"
    "\<forall>inner. inner_itlist example_returning_ctx = Some inner
        \<longrightarrow> \<not> has_non_vars inner \<and> \<not> has_ph_vars inner"
    by (simp_all add: example_defs fixer_defs example_returning_ctx_def)
  have d: "fix_upper_expr example_env example_glob (FuncExpr 1242 False [Var (example_var 1 1)])
         (outer_itlist example_returning_ctx) 0
       = Inr (FuncExpr 1242 False [Var ((example_var 65001 1)\<lparr>varnoold := 1\<rparr>)], example_glob)"
    by (simp add: example_defs fixer_defs example_returning_ctx_def)
  have e: "fix_join_expr_mutator example_env example_returning_ctx example_glob
         (FuncExpr 1242 False [Var (example_var 1 1)])
       = Inr (FuncExpr 1242 False [Var ((example_var 65001 1)\<lparr>varnoold := 1\<rparr>)], example_glob)"
    by (simp add: example_defs fixer_defs example_returning_ctx_def)
  have f: "fix_join_expr_mutator example_env (example_returning_ctx\<lparr>acceptable_rel := 0\<rparr>) example_glob
         (Var (example_var 3 2)) = Inl VariableNotFoundJoin"
    by (simp add: example_defs fixer_defs example_returning_ctx_def)
  have g: "varno (example_var 3 2) = acceptable_rel example_returning_ctx"
    "varnoold (example_var 3 2) = 3" "rtoffset example_returning_ctx = 0"
    by (simp_all add: example_defs example_returning_ctx_def)
  have h: "search_join_var example_env example_returning_ctx (example_var 1 1)
       = Some ((example_var 65001 1)\<lparr>varnoold := 1\<rparr>)"
    by (simp add: example_defs fixer_defs example_returning_ctx_def)
  from unmatched_variable_is_fatal [of example_env example_returning_ctx "example_var 3 2"
      example_glob "outer_itlist example_returning_ctx" 0
      "FuncExpr 1242 False [Var (example_var 1 1)]"
      "FuncExpr 1242 False [Var ((example_var 65001 1)\<lparr>varnoold := 1\<rparr>)]" example_glob]
  show ?thesis using a b c d e f g h by simp
qed

subsection \<open>Hash clauses\<close>




subsection \<open>Pseudo columns\<close>

text \<open>
  Claim C8, as the code has it.  At scan level a variable whose attribute number is at or
  below \<open>FirstLowInvalidHeapAttributeNumber\<close> is replaced by a copy of the defining
  expression of that pseudo column, looked up in the entry of the flattened range table
  at the variable's offset slot.  The copy is not fixed as a scan-level expression: only
  \<open>fix_scan_expr_walker\<close> runs over it, which fills in operator handles and records
  dependencies; the variables inside the copy are left exactly as they are, without the
  offset.
\<close>

theorem pseudo_column_gets_walked_copy:
  assumes "varattno v \<le> FirstLowInvalidHeapAttributeNumber env"
    and "rt_fetch (varno v + offs) (finalrtable glob) = Some rte"
    and "cdb_rte_find_pseudo_column env rte (varattno v) = Some defexpr"
  shows "fix_scan_expr env glob (Var v) offs = fix_scan_expr_walker env glob defexpr
       \<and> (\<forall>e' glob'. fix_scan_expr env glob (Var v) offs = Inr (e', glob') \<longrightarrow>
            expr_vars e' = expr_vars defexpr)"
proof -
  have "fix_scan_expr env glob (Var v) offs = fix_scan_expr_walker env glob defexpr"
    using assms by (simp add: fix_scan_expr_def copyVar_offset_def Let_def)
  then show ?thesis using walker_keeps_vars by simp
qed

theorem pseudo_column_witness:
  "varattno (example_var 1 (-10)) \<le> FirstLowInvalidHeapAttributeNumber example_env
   \<and> rt_fetch (varno (example_var 1 (-10)) + 3) (finalrtable example_pseudo_glob)
        = Some ((example_rte RTE_RELATION 502)\<lparr>pseudocols := [(-10, Some example_pseudo_defexpr)]\<rparr>)
   \<and> fix_scan_expr example_env example_pseudo_glob (Var (example_var 1 (-10))) 3
        = fix_scan_expr_walker example_env example_pseudo_glob example_pseudo_defexpr
   \<and> fix_scan_expr example_env example_pseudo_glob (Var (example_var 1 (-10))) 3
        = Inr (OpExpr 96 97 False [Var (example_var 1 2), Const 23 5 False], example_pseudo_glob)
   \<and> expr_vars (OpExpr 96 97 False [Var (example_var 1 2), Const 23 5 False])
        = expr_vars example_pseudo_defexpr"
proof -
  have a: "varattno (example_var 1 (-10)) \<le> FirstLowInvalidHeapAttributeNumber example_env"
    by (simp add: example_defs)
  have b: "rt_fetch (varno (example_var 1 (-10)) + 3) (finalrtable example_pseudo_glob)
        = Some ((example_rte RTE_RELATION 502)\<lparr>pseudocols := [(-10, Some example_pseudo_defexpr)]\<rparr>)"
    by (simp add: example_defs rt_fetch_def)
  have c: "cdb_rte_find_pseudo_column example_env
             ((example_rte RTE_RELATION 502)\<lparr>pseudocols := [(-10, Some example_pseudo_defexpr)]\<rparr>)
             (varattno (example_var 1 (-10))) = Some example_pseudo_defexpr"
    by (simp add: example_env_def example_rte_def example_var_def makeVar_def)
  have d: "expr_vars (OpExpr 96 97 False [Var (example_var 1 2), Const 23 5 False])
        = expr_vars example_pseudo_defexpr"
    by (simp add: example_pseudo_defexpr_def)
  from pseudo_column_gets_walked_copy [OF a b c] example_pseudo_fixed
  show ?thesis using a b d by blast
qed

text \<open>
  The claim as stated fails: with offset 3, the copy keeps its variable at slot 1, where
  fixing the defining expression as a scan-level expression gives slot 4.
\<close>

theorem pseudo_column_not_offset_counterexample:
  "fix_scan_expr example_env example_pseudo_glob (Var (example_var 1 (-10))) 3
     = Inr (OpExpr 96 97 False [Var (example_var 1 2), Const 23 5 False], example_pseudo_glob)
   \<and> fix_scan_expr example_env example_pseudo_glob example_pseudo_defexpr 3
     = Inr (OpExpr 96 97 False [Var (example_var 4 2), Const 23 5 False], example_pseudo_glob)
   \<and> fix_scan_expr example_env example_pseudo_glob (Var (example_var 1 (-10))) 3
     \<noteq> fix_scan_expr example_env example_pseudo_glob example_pseudo_defexpr 3"
  by (simp add: example_defs fixer_defs)

subsection \<open>Slots after the pass\<close>

text \<open>
  Claim C1 is not what the code does.  The \<open>T_Result\<close> case of \<open>set_plan_refs\<close> fixes the
  output list of a \<open>Result\<close> with a child against the child (\<open>set_upper_references\<close>) and
  then, with no \<open>else\<close>, fixes it again as a scan-level list, which adds the offset to the
  sentinel slot it has just been given.  Below, a subquery whose plan is a \<open>Result\<close> over a
  sequential scan, in a query whose own range table has one entry: the returned tree has a
  variable with slot 65002, which is neither sentinel (65000, 65001) nor a slot of the
  final range table (two entries).
\<close>

theorem result_over_child_leaves_invalid_slot:
  "set_plan_references 3 example_env example_glob (Some example_subquery)
     [example_rte RTE_SUBQUERY 0] []
   = Inr (Some (Plan (Result None)
                  [(example_tle (Var ((example_var 65002 1)\<lparr>varnoold := 3\<rparr>)) 1)\<lparr>resname := ''total''\<rparr>]
                  []
                  (Some (Plan (Scan T_SeqScan 2)
                           [example_tle (Var ((example_var 2 1)\<lparr>varnoold := 2\<rparr>)) 1] [] None None [] None))
                  None [] None),
          example_glob\<lparr>finalrtable := [example_rte RTE_SUBQUERY 0, example_rte RTE_RELATION 500],
                       relationOids := [500]\<rparr>)
   \<and> INNER example_env = 65000 \<and> OUTER example_env = 65001
   \<and> length [example_rte RTE_SUBQUERY 0, example_rte RTE_RELATION 500] = 2"
  by (simp add: fuel3 example_defs example_plan_defs plan_defs fixer_defs)

subsection \<open>Set-returning output lists\<close>




subsection \<open>Pass-through nodes\<close>



subsection \<open>Subquery wrappers\<close>

text \<open>
  Claim C3.  \<open>set_subqueryscan_references\<close> first resolves the subplan.  It then returns
  the resolved subplan in place of the wrapper if and only if the wrapper has no residual
  filter and its output list is a 1:1 positional passthrough of the subplan's output with
  matching junk flags, a constant equal to the subplan's entry being accepted
  (\<open>passthrough_of_child\<close>, the spec's condition).  On elimination every column of the
  returned node has the wrapper's name and source provenance (\<open>resname\<close>, \<open>resorigtbl\<close>,
  \<open>resorigcol\<close>) at its position and is otherwise the subplan's entry; the wrapper's
  init-plans are prepended to the subplan's and the wrapper's Flow replaces the subplan's.
  Otherwise the wrapper is kept, with the resolved subplan below it, and fixed as a scan.
\<close>

theorem subqueryscan_eliminated_iff_passthrough:
  assumes "kind p = SubqueryScan scanrelid subplan subrtable subrowmark"
    and "set_subqueryscan_references n env glob p offs = Inr (res, loc, glob')"
  shows "\<exists>subplan' glob1.
           set_plan_references n env glob (Some subplan) subrtable subrowmark
             = Inr (Some subplan', glob1)
         \<and> (if passthrough_of_child p subplan'
            then loc = None \<and> glob' = glob1
               \<and> kind res = kind subplan' \<and> qual res = qual subplan'
               \<and> lefttree res = lefttree subplan' \<and> righttree res = righttree subplan'
               \<and> initPlan res = initPlan p @ initPlan subplan' \<and> flow res = flow p
               \<and> length (targetlist res) = length (targetlist p)
               \<and> (\<forall>i<length (targetlist p).
                     resname (targetlist res ! i) = resname (targetlist p ! i)
                   \<and> resorigtbl (targetlist res ! i) = resorigtbl (targetlist p ! i)
                   \<and> resorigcol (targetlist res ! i) = resorigcol (targetlist p ! i)
                   \<and> expr (targetlist res ! i) = expr (targetlist subplan' ! i)
                   \<and> resno (targetlist res ! i) = resno (targetlist subplan' ! i)
                   \<and> ressortgroupref (targetlist res ! i) = ressortgroupref (targetlist subplan' ! i)
                   \<and> resjunk (targetlist res ! i) = resjunk (targetlist subplan' ! i))
            else loc = Some 0
               \<and> fix_scan_tlist_qual env glob1
                    (set_kind p (SubqueryScan (scanrelid + offs) subplan' [] [])) offs
                  = Inr (res, glob')
               \<and> kind res = SubqueryScan (scanrelid + offs) subplan' [] [])"
proof -
  from assms obtain subplan' glob1 where
    sub: "set_plan_references n env glob (Some subplan) subrtable subrowmark
            = Inr (Some subplan', glob1)"
    and rest: "(if trivial_subqueryscan p subplan' then
                  Inr (set_flow
                         (set_targetlist
                            (set_initPlan subplan' (initPlan p @ initPlan subplan'))
                            (transfer_resnames (targetlist p) (targetlist subplan')))
                         (flow p),
                       None, glob1)
                else
                  sbind (fix_scan_tlist_qual env glob1
                           (set_kind p (SubqueryScan (scanrelid + offs) subplan' [] [])) offs)
                    (\<lambda>(p1, glob2). Inr (p1, Some 0, glob2))) = Inr (res, loc, glob')"
    by (auto simp: set_subqueryscan_references_def set_subqueryscan_references_with_def
          set_plan_references_def sbind_eq_Inr split: option.splits)
  show ?thesis
  proof (cases "passthrough_of_child p subplan'")
    case True
    then have len: "length (targetlist p) = length (targetlist subplan')"
      by (simp add: passthrough_of_child_def)
    from True rest have
      r: "res = set_flow
                  (set_targetlist
                     (set_initPlan subplan' (initPlan p @ initPlan subplan'))
                     (transfer_resnames (targetlist p) (targetlist subplan')))
                  (flow p)"
      and l: "loc = None" "glob' = glob1"
      by (simp_all add: trivial_subqueryscan_iff)
    have t: "targetlist res = transfer_resnames (targetlist p) (targetlist subplan')"
      using r by (simp add: set_flow_def set_targetlist_def)
    have f: "kind res = kind subplan'" "qual res = qual subplan'"
      "lefttree res = lefttree subplan'" "righttree res = righttree subplan'"
      "initPlan res = initPlan p @ initPlan subplan'" "flow res = flow p"
      using r by (simp_all add: set_flow_def set_targetlist_def set_initPlan_def)
    from transfer_resnames_nth [OF len] t len True l f sub show ?thesis
      by (intro exI [of _ subplan'] exI [of _ glob1]) simp
  next
    case False
    with rest obtain
      fx: "fix_scan_tlist_qual env glob1
             (set_kind p (SubqueryScan (scanrelid + offs) subplan' [] [])) offs = Inr (res, glob')"
      and l: "loc = Some 0"
      by (auto simp: trivial_subqueryscan_iff sbind_eq_Inr)
    from fix_scan_tlist_qual_frame [OF fx]
    have "kind res = SubqueryScan (scanrelid + offs) subplan' [] []"
      by (simp add: set_kind_def)
    with False fx l sub show ?thesis
      by (intro exI [of _ subplan'] exI [of _ glob1]) simp
  qed
qed

theorem subqueryscan_eliminated_witness:
  "kind example_subquery
     = SubqueryScan 1 example_result_over_scan [example_rte RTE_RELATION 500] []
   \<and> set_subqueryscan_references 2 example_env example_outer_glob example_subquery 0
     = Inr (set_targetlist example_pulled_up_subplan
              [(example_tle (Var ((example_var 65002 1)\<lparr>varnoold := 3\<rparr>)) 1)\<lparr>resname := ''total''\<rparr>],
            None,
            example_glob\<lparr>finalrtable := [example_rte RTE_SUBQUERY 0, example_rte RTE_RELATION 500],
                         relationOids := [500]\<rparr>)
   \<and> set_plan_references 2 example_env example_outer_glob (Some example_result_over_scan)
        [example_rte RTE_RELATION 500] []
     = Inr (Some example_pulled_up_subplan,
            example_glob\<lparr>finalrtable := [example_rte RTE_SUBQUERY 0, example_rte RTE_RELATION 500],
                         relationOids := [500]\<rparr>)
   \<and> passthrough_of_child example_subquery example_pulled_up_subplan
   \<and> map resname (targetlist example_subquery) = [''total'']
   \<and> set_subqueryscan_references 2 example_env example_outer_glob example_filtering_subquery 0
     = Inr (Plan (SubqueryScan 1 example_pulled_up_subplan [] [])
              [(example_tle (Var (example_var 1 1)) 1)\<lparr>resname := ''total''\<rparr>]
              [OpExpr 96 97 False [Var (example_var 1 1), Const 23 7 False]]
              None None [] None,
            Some 0,
            example_glob\<lparr>finalrtable := [example_rte RTE_SUBQUERY 0, example_rte RTE_RELATION 500],
                         relationOids := [500]\<rparr>)
   \<and> \<not> passthrough_of_child example_filtering_subquery example_pulled_up_subplan"
proof -
  have a: "kind example_subquery
     = SubqueryScan 1 example_result_over_scan [example_rte RTE_RELATION 500] []"
    by (simp add: example_plan_defs)
  have b: "set_subqueryscan_references (Suc (Suc 0)) example_env example_outer_glob example_subquery 0
     = Inr (set_targetlist example_pulled_up_subplan
              [(example_tle (Var ((example_var 65002 1)\<lparr>varnoold := 3\<rparr>)) 1)\<lparr>resname := ''total''\<rparr>],
            None,
            example_glob\<lparr>finalrtable := [example_rte RTE_SUBQUERY 0, example_rte RTE_RELATION 500],
                         relationOids := [500]\<rparr>)"
    using example_subquery_pulled_up
    by (simp add: example_pulled_up_subplan_def set_targetlist_def)
  have c: "set_plan_references (Suc (Suc 0)) example_env example_outer_glob (Some example_result_over_scan)
        [example_rte RTE_RELATION 500] []
     = Inr (Some example_pulled_up_subplan,
            example_glob\<lparr>finalrtable := [example_rte RTE_SUBQUERY 0, example_rte RTE_RELATION 500],
                         relationOids := [500]\<rparr>)"
    by (simp add: example_defs example_plan_defs plan_defs fixer_defs example_outer_glob_def
          example_pulled_up_subplan_def)
  have d: "passthrough_of_child example_subquery example_pulled_up_subplan"
    "\<not> passthrough_of_child example_filtering_subquery example_pulled_up_subplan"
    "map resname (targetlist example_subquery) = [''total'']"
    by (simp_all add: passthrough_of_child_def passthrough_entry_def example_plan_defs
          example_pulled_up_subplan_def example_tle_def example_var_def makeVar_def
          example_filtering_subquery_def set_qual_def)
  have e: "set_subqueryscan_references (Suc (Suc 0)) example_env example_outer_glob
             example_filtering_subquery 0
     = Inr (Plan (SubqueryScan 1 example_pulled_up_subplan [] [])
              [(example_tle (Var (example_var 1 1)) 1)\<lparr>resname := ''total''\<rparr>]
              [OpExpr 96 97 False [Var (example_var 1 1), Const 23 7 False]]
              None None [] None,
            Some 0,
            example_glob\<lparr>finalrtable := [example_rte RTE_SUBQUERY 0, example_rte RTE_RELATION 500],
                         relationOids := [500]\<rparr>)"
    by (simp add: example_defs example_plan_defs plan_defs fixer_defs example_outer_glob_def
          example_filtering_subquery_def example_pulled_up_subplan_def)
  note f = a b c d e
  from subqueryscan_eliminated_iff_passthrough [OF a b]
  show ?thesis using f [folded fuel2] by blast
qed

end
